theory Spec2Isabelle
  imports Main
begin

section \<open>Outcomes of a call: normal return or panic\<close>

text \<open>
  A Go call either returns or panics. Both outcomes carry the state reached, because
  deferred functions still run on the state a panic leaves behind.
\<close>

datatype Fault = UnreachableError | NilPointerDereference | ExternalFault nat

datatype ('a, 's) Outcome = Returned 'a 's | Panicked Fault 's

definition and_then ::
  "('a, 's) Outcome \<Rightarrow> ('a \<Rightarrow> 's \<Rightarrow> ('b, 's) Outcome) \<Rightarrow> ('b, 's) Outcome" where
  "and_then r f = (case r of Returned a s \<Rightarrow> f a s | Panicked p s \<Rightarrow> Panicked p s)"

text \<open>
  \<open>deferred d r\<close>: the deferred call \<open>d\<close> runs after the body's outcome \<open>r\<close>, whether the
  body returned or panicked. A panic of the deferred call itself replaces the pending one.
\<close>

definition deferred ::
  "('s \<Rightarrow> (unit, 's) Outcome) \<Rightarrow> ('a, 's) Outcome \<Rightarrow> ('a, 's) Outcome" where
  "deferred d r =
     (case r of
        Returned a s \<Rightarrow>
          (case d s of Returned u s' \<Rightarrow> Returned a s' | Panicked p s' \<Rightarrow> Panicked p s')
      | Panicked p s \<Rightarrow>
          (case d s of Returned u s' \<Rightarrow> Panicked p s' | Panicked p' s' \<Rightarrow> Panicked p' s'))"



section \<open>The syntax tree handed to the interface checker\<close>

text \<open>
  Modelled from the spec: the \<open>ast\<close> and \<open>common\<close> packages are not part of the sources.
  The spec (External Interfaces) lists what a parsed interface declaration exposes:
  identifier, composite kind, access modifier, field list, function list, initializer and
  destructor signatures, nested composite and interface declarations, source positions.
  Only the parts the checker code reads are given structure.
\<close>

record Position =
  Offset :: int
  Line :: int
  Column :: int

datatype Access =
  AccessNotSpecified | AccessPrivate | AccessAuthorized | AccessPublic | AccessPublicSettable

datatype CompositeKind =
  CompositeKindUnknown | CompositeKindStructure | CompositeKindResource
  | CompositeKindContract | CompositeKindEvent | CompositeKindEnum

datatype DeclarationKind =
  DeclarationKindUnknown | DeclarationKindFunction | DeclarationKindInitializer
  | DeclarationKindDestructor | DeclarationKindStructure | DeclarationKindResource
  | DeclarationKindContract | DeclarationKindEvent | DeclarationKindEnum
  | DeclarationKindStructureInterface | DeclarationKindResourceInterface
  | DeclarationKindContractInterface

record Identifier =
  Identifier :: string
  Pos :: Position

datatype Statement = Statement (StartPosition: Position)

datatype Condition = Condition nat

record FunctionBlock =
  Statements :: "Statement list"
  PreConditions :: "Condition list"
  PostConditions :: "Condition list"
  StartPos :: Position

record FunctionDeclaration =
  FunctionAccess :: Access
  FunctionIdentifier :: Identifier
  FunctionSignature :: nat
  FunctionBlock :: "FunctionBlock option"

record FieldDeclaration =
  FieldAccess :: Access
  FieldIdentifier :: Identifier
  FieldTypeAnnotation :: nat

record SpecialFunctionDeclaration =
  SpecialDeclarationKind :: DeclarationKind
  SpecialFunction :: FunctionDeclaration

record Members =
  Fields :: "FieldDeclaration list"
  Functions :: "FunctionDeclaration list"
  SpecialFunctions :: "SpecialFunctionDeclaration list"

text \<open>
  The \<open>ast.Declaration\<close> interface as the checker uses it on nested declarations:
  \<open>DeclarationIdentifier()\<close> may be nil.
\<close>

record Declaration =
  DeclarationIdentifier :: "Identifier option"
  DeclarationKind :: DeclarationKind
  DeclarationAccess :: Access

datatype CompositeDeclaration =
  CompositeDeclaration (CompositePtr: nat) (CompositeDeclKind: CompositeKind)
    (CompositeDeclIdentifier: Identifier)

text \<open>
  \<open>DeclPtr\<close> is the address of the declaration node: the checker's maps are keyed by the
  pointer \<open>*ast.InterfaceDeclaration\<close>, not by the node's contents.
\<close>

datatype InterfaceDeclaration =
  InterfaceDeclaration
    (DeclPtr: nat)
    (DeclAccess: Access)
    (DeclCompositeKind: CompositeKind)
    (DeclIdentifier: Identifier)
    (DeclMembers: Members)
    (CompositeDeclarations: "CompositeDeclaration list")
    (InterfaceDeclarations: "InterfaceDeclaration list")
    (DeclStartPos: Position)

fun CompositeKind_DeclarationKind :: "CompositeKind \<Rightarrow> bool \<Rightarrow> DeclarationKind" where
  "CompositeKind_DeclarationKind CompositeKindStructure isInterface =
     (if isInterface then DeclarationKindStructureInterface else DeclarationKindStructure)"
| "CompositeKind_DeclarationKind CompositeKindResource isInterface =
     (if isInterface then DeclarationKindResourceInterface else DeclarationKindResource)"
| "CompositeKind_DeclarationKind CompositeKindContract isInterface =
     (if isInterface then DeclarationKindContractInterface else DeclarationKindContract)"
| "CompositeKind_DeclarationKind CompositeKindEvent isInterface = DeclarationKindEvent"
| "CompositeKind_DeclarationKind CompositeKindEnum isInterface = DeclarationKindEnum"
| "CompositeKind_DeclarationKind CompositeKindUnknown isInterface = DeclarationKindUnknown"

definition InterfaceDeclaration_DeclarationKind :: "InterfaceDeclaration \<Rightarrow> DeclarationKind" where
  "InterfaceDeclaration_DeclarationKind declaration =
     CompositeKind_DeclarationKind (DeclCompositeKind declaration) True"




section \<open>Semantic types and the checker state\<close>

text \<open>
  A value of the Go interface \<open>Type\<close> is a pointer to an interface type or to a composite
  type. The objects themselves live in two stores, addressed by number, so that the
  in-place updates of \<open>NestedTypes\<close> and \<open>ContainerType\<close> are visible through every alias.
\<close>

datatype Type = InterfaceTypePtr nat | CompositeTypePtr nat

datatype Member = Member string nat

datatype Origin = Origin nat

datatype TypeAnnotation = TypeAnnotation nat

record InterfaceType =
  Location :: nat
  TypeIdentifier :: string
  TypeCompositeKind :: CompositeKind
  NestedTypes :: "string \<rightharpoonup> Type"
  TypeMembers :: "string \<rightharpoonup> Member"
  InitializerParameterTypeAnnotations :: "TypeAnnotation list"
  ContainerType :: "Type option"

text \<open>
  Modelled from the spec: \<open>CompositeType\<close> is not part of the sources; the interface
  checker reads its identifier and writes its container back-reference.
\<close>

record CompositeType =
  CompositeIdentifier :: string
  CompositeTypeKind :: CompositeKind
  CompositeContainerType :: "Type option"

text \<open>
  Diagnostics reported to the checker's accumulating sink. \<open>InvalidImplementationError\<close>
  is built in the sources; \<open>RedeclarationError\<close> is modelled from the spec (an identifier
  collision, carrying the declaration's access modifier and kind); \<open>OtherError\<close> stands
  for every diagnostic kind that only checks outside the sources report.
\<close>

datatype Diagnostic =
  InvalidImplementationError Position DeclarationKind DeclarationKind
  | RedeclarationError Access DeclarationKind string Position
  | OtherError nat

record Variable =
  VariableIdentifier :: string
  VariableType :: Type
  VariableKind :: DeclarationKind
  VariableAccess :: Access
  VariablePos :: Position

text \<open>
  The checker state: the fields of \<open>Checker\<close> that the interface checker touches, the
  two type stores, and \<open>unmodelled\<close> for everything else the absent checks keep.
  \<open>containerTypes\<close> is keyed by a possibly nil \<open>*InterfaceType\<close> stored as a \<open>Type\<close>.
  \<open>typeActivations\<close> and \<open>valueActivations\<close> are stacks of scope layers, innermost
  first. \<open>nextInterfaceType\<close> is the address the next \<open>&InterfaceType{...}\<close> gets.
\<close>

record 'x Checker =
  CheckerLocation :: nat
  errors :: "Diagnostic list"
  containerTypes :: "Type option \<rightharpoonup> bool"
  typeActivations :: "(string \<rightharpoonup> Variable) list"
  valueActivations :: "(string \<rightharpoonup> Variable) list"
  InterfaceDeclarationTypes :: "nat \<rightharpoonup> nat"
  InterfaceNestedDeclarations :: "nat \<rightharpoonup> (string \<rightharpoonup> Declaration)"
  memberOrigins :: "Type \<rightharpoonup> (string \<rightharpoonup> Origin)"
  interfaceTypes :: "nat \<rightharpoonup> InterfaceType"
  nextInterfaceType :: nat
  compositeTypes :: "nat \<rightharpoonup> CompositeType"
  unmodelled :: 'x

text \<open>
  Modelled from the spec: \<open>checker.report\<close> is not part of the sources. A diagnostic is
  appended to the accumulating sink and checking continues; a nil error is ignored.
\<close>

definition report :: "Diagnostic option \<Rightarrow> 'x Checker \<Rightarrow> (unit, 'x Checker) Outcome" where
  "report err checker =
     (case err of
        None \<Rightarrow> Returned () checker
      | Some e \<Rightarrow> Returned () (checker\<lparr>errors := errors checker @ [e]\<rparr>))"

section \<open>The body rule for interface functions\<close>

definition checkInterfaceSpecialFunctionBlock ::
  "FunctionBlock \<Rightarrow> DeclarationKind \<Rightarrow> DeclarationKind \<Rightarrow> 'x Checker
    \<Rightarrow> (unit, 'x Checker) Outcome" where
  "checkInterfaceSpecialFunctionBlock block containerKind implementedKind checker =
     (if length (Statements block) > 0 then
        (case Statements block of
           [] \<Rightarrow> Panicked NilPointerDereference checker
         | first # rest \<Rightarrow>
             report (Some (InvalidImplementationError
                             (StartPosition first) containerKind implementedKind)) checker)
      else if length (PreConditions block) = 0 \<and> length (PostConditions block) = 0 then
        report (Some (InvalidImplementationError
                        (StartPos block) containerKind implementedKind)) checker
      else Returned () checker)"

section \<open>The scope stack\<close>

text \<open>
  Modelled from the spec: the activations (\<open>Enter\<close>, \<open>Leave\<close>, \<open>DeclareType\<close>) are not part
  of the sources. The spec describes a stack of lexical layers with push and pop, and
  for \<open>DeclareType\<close>: register the identifier in the current scope's type namespace and
  hand back a diagnostic, not a fault, if the identifier collides with an existing type
  in the same scope, using the declaration's access modifier and kind.
\<close>

definition typeActivations_Enter :: "'x Checker \<Rightarrow> (unit, 'x Checker) Outcome" where
  "typeActivations_Enter checker =
     Returned () (checker\<lparr>typeActivations := Map.empty # typeActivations checker\<rparr>)"

definition typeActivations_Leave :: "'x Checker \<Rightarrow> (unit, 'x Checker) Outcome" where
  "typeActivations_Leave checker =
     (case typeActivations checker of
        [] \<Rightarrow> Returned () checker
      | layer # outer \<Rightarrow> Returned () (checker\<lparr>typeActivations := outer\<rparr>))"

definition valueActivations_Enter :: "'x Checker \<Rightarrow> (unit, 'x Checker) Outcome" where
  "valueActivations_Enter checker =
     Returned () (checker\<lparr>valueActivations := Map.empty # valueActivations checker\<rparr>)"

definition valueActivations_Leave :: "'x Checker \<Rightarrow> (unit, 'x Checker) Outcome" where
  "valueActivations_Leave checker =
     (case valueActivations checker of
        [] \<Rightarrow> Returned () checker
      | layer # outer \<Rightarrow> Returned () (checker\<lparr>valueActivations := outer\<rparr>))"

definition typeActivations_DeclareType ::
  "Identifier \<Rightarrow> Type \<Rightarrow> DeclarationKind \<Rightarrow> Access \<Rightarrow> 'x Checker
    \<Rightarrow> (Variable \<times> Diagnostic option, 'x Checker) Outcome" where
  "typeActivations_DeclareType identifier ty declarationKind access checker =
     (let variable =
            \<lparr>VariableIdentifier = Identifier identifier, VariableType = ty,
             VariableKind = declarationKind, VariableAccess = access,
             VariablePos = Pos identifier\<rparr>
      in case typeActivations checker of
           [] \<Rightarrow>
             Returned (variable, None)
               (checker\<lparr>typeActivations :=
                  [Map.empty(Identifier identifier \<mapsto> variable)]\<rparr>)
         | layer # outer \<Rightarrow>
             Returned
               (variable,
                (case layer (Identifier identifier) of
                   None \<Rightarrow> None
                 | Some existing \<Rightarrow>
                     Some (RedeclarationError access declarationKind
                             (Identifier identifier) (Pos identifier))))
               (checker\<lparr>typeActivations :=
                  layer(Identifier identifier \<mapsto> variable) # outer\<rparr>))"

section \<open>The checks that are not part of the sources\<close>

text \<open>
  The interface checker calls many methods of \<open>Checker\<close> whose bodies are not part of the
  sources. Each is a parameter: an arbitrary function of its arguments and the checker
  state that returns or panics. \<open>rangeOrder\<close> is the order in which Go enumerates the keys
  of a map in a \<open>range\<close> loop, which the language leaves unspecified.
\<close>

datatype ContainerKind = ContainerKindUnknown | ContainerKindInterface | ContainerKindComposite

record functionDeclarationOptions =
  mustExit :: bool
  declareFunction :: bool
  checkResourceLoss :: bool
  allowAuthAccessModifier :: bool

record 'x Helpers =
  checkDeclarationAccessModifier ::
    "Access \<Rightarrow> DeclarationKind \<Rightarrow> Position \<Rightarrow> bool \<Rightarrow> bool
      \<Rightarrow> 'x Checker \<Rightarrow> (unit, 'x Checker) Outcome"
  checkFieldsAccessModifier ::
    "FieldDeclaration list \<Rightarrow> 'x Checker \<Rightarrow> (unit, 'x Checker) Outcome"
  checkNestedIdentifiers ::
    "FieldDeclaration list \<Rightarrow> FunctionDeclaration list \<Rightarrow> InterfaceDeclaration list
      \<Rightarrow> CompositeDeclaration list \<Rightarrow> 'x Checker \<Rightarrow> (unit, 'x Checker) Outcome"
  rangeOrder :: "(string \<rightharpoonup> Type) \<Rightarrow> string list"
  membersAndOrigins ::
    "nat \<Rightarrow> FieldDeclaration list \<Rightarrow> FunctionDeclaration list \<Rightarrow> bool \<Rightarrow> 'x Checker
      \<Rightarrow> ((string \<rightharpoonup> Member) \<times> (string \<rightharpoonup> Origin), 'x Checker) Outcome"
  initializerParameterTypeAnnotations ::
    "SpecialFunctionDeclaration list \<Rightarrow> 'x Checker
      \<Rightarrow> (TypeAnnotation list, 'x Checker) Outcome"
  checkInitializers ::
    "SpecialFunctionDeclaration list \<Rightarrow> FieldDeclaration list \<Rightarrow> nat \<Rightarrow> DeclarationKind
      \<Rightarrow> string \<Rightarrow> TypeAnnotation list \<Rightarrow> ContainerKind \<Rightarrow> nat option
      \<Rightarrow> 'x Checker \<Rightarrow> (unit, 'x Checker) Outcome"
  checkDestructors ::
    "SpecialFunctionDeclaration list \<Rightarrow> (string \<rightharpoonup> FieldDeclaration)
      \<Rightarrow> (string \<rightharpoonup> Member) \<Rightarrow> nat \<Rightarrow> DeclarationKind \<Rightarrow> string \<Rightarrow> ContainerKind
      \<Rightarrow> 'x Checker \<Rightarrow> (unit, 'x Checker) Outcome"
  checkUnknownSpecialFunctions ::
    "SpecialFunctionDeclaration list \<Rightarrow> 'x Checker \<Rightarrow> (unit, 'x Checker) Outcome"
  checkResourceFieldNesting ::
    "(string \<rightharpoonup> FieldDeclaration) \<Rightarrow> (string \<rightharpoonup> Member) \<Rightarrow> CompositeKind
      \<Rightarrow> 'x Checker \<Rightarrow> (unit, 'x Checker) Outcome"
  checkCompositeDeclarationSupport ::
    "CompositeKind \<Rightarrow> DeclarationKind \<Rightarrow> Identifier
      \<Rightarrow> 'x Checker \<Rightarrow> (unit, 'x Checker) Outcome"
  enterValueScope :: "'x Checker \<Rightarrow> (unit, 'x Checker) Outcome"
  leaveValueScope :: "bool \<Rightarrow> 'x Checker \<Rightarrow> (unit, 'x Checker) Outcome"
  declareSelfValue :: "nat \<Rightarrow> 'x Checker \<Rightarrow> (unit, 'x Checker) Outcome"
  visitFunctionDeclaration ::
    "FunctionDeclaration \<Rightarrow> functionDeclarationOptions
      \<Rightarrow> 'x Checker \<Rightarrow> (unit, 'x Checker) Outcome"
  recordVariableDeclarationOccurrence ::
    "string \<Rightarrow> Variable \<Rightarrow> 'x Checker \<Rightarrow> (unit, 'x Checker) Outcome"
  visitNestedDeclarations ::
    "CompositeKind \<Rightarrow> DeclarationKind \<Rightarrow> CompositeDeclaration list
      \<Rightarrow> InterfaceDeclaration list \<Rightarrow> 'x Checker
      \<Rightarrow> ((string \<rightharpoonup> Declaration) \<times> nat list \<times> nat list, 'x Checker) Outcome"

section \<open>Reading and writing type objects through pointers\<close>

text \<open>
  A pointer with no object in the store stands for a nil or dangling pointer: reading or
  writing a field through it panics.
\<close>

definition read_interfaceType :: "nat \<Rightarrow> 'x Checker \<Rightarrow> (InterfaceType, 'x Checker) Outcome" where
  "read_interfaceType a checker =
     (case interfaceTypes checker a of
        None \<Rightarrow> Panicked NilPointerDereference checker
      | Some ty \<Rightarrow> Returned ty checker)"

definition write_interfaceType ::
  "nat \<Rightarrow> (InterfaceType \<Rightarrow> InterfaceType) \<Rightarrow> 'x Checker \<Rightarrow> (unit, 'x Checker) Outcome" where
  "write_interfaceType a f checker =
     (case interfaceTypes checker a of
        None \<Rightarrow> Panicked NilPointerDereference checker
      | Some ty \<Rightarrow> Returned () (checker\<lparr>interfaceTypes := (interfaceTypes checker)(a \<mapsto> f ty)\<rparr>))"

definition read_compositeType :: "nat \<Rightarrow> 'x Checker \<Rightarrow> (CompositeType, 'x Checker) Outcome" where
  "read_compositeType a checker =
     (case compositeTypes checker a of
        None \<Rightarrow> Panicked NilPointerDereference checker
      | Some ty \<Rightarrow> Returned ty checker)"

definition write_compositeType ::
  "nat \<Rightarrow> (CompositeType \<Rightarrow> CompositeType) \<Rightarrow> 'x Checker \<Rightarrow> (unit, 'x Checker) Outcome" where
  "write_compositeType a f checker =
     (case compositeTypes checker a of
        None \<Rightarrow> Panicked NilPointerDereference checker
      | Some ty \<Rightarrow> Returned () (checker\<lparr>compositeTypes := (compositeTypes checker)(a \<mapsto> f ty)\<rparr>))"

section \<open>Phase 2: checking an interface declaration\<close>

text \<open>
  \<open>checkInterfaceFunction\<close> is the function literal that \<open>checkInterfaceFunctions\<close> calls
  once per function: \<open>leaveValueScope\<close> is deferred as soon as \<open>enterValueScope\<close> has returned.
\<close>

definition checkInterfaceFunction ::
  "'x Helpers \<Rightarrow> FunctionDeclaration \<Rightarrow> nat \<Rightarrow> DeclarationKind \<Rightarrow> bool \<Rightarrow> 'x Checker
    \<Rightarrow> (unit, 'x Checker) Outcome" where
  "checkInterfaceFunction h function interfaceType declarationKind inResource checker =
     and_then (enterValueScope h checker)
       (\<lambda>u c1. deferred (leaveValueScope h False)
          (and_then (declareSelfValue h interfaceType c1)
             (\<lambda>u c2.
                and_then
                  (visitFunctionDeclaration h function
                     \<lparr>mustExit = False, declareFunction = False, checkResourceLoss = False,
                      allowAuthAccessModifier = inResource\<rparr> c2)
                  (\<lambda>u c3.
                     case FunctionBlock function of
                       None \<Rightarrow> Returned () c3
                     | Some block \<Rightarrow>
                         checkInterfaceSpecialFunctionBlock block declarationKind
                           DeclarationKindFunction c3))))"

fun checkInterfaceFunctions_loop ::
  "'x Helpers \<Rightarrow> FunctionDeclaration list \<Rightarrow> nat \<Rightarrow> DeclarationKind \<Rightarrow> bool \<Rightarrow> 'x Checker
    \<Rightarrow> (unit, 'x Checker) Outcome" where
  "checkInterfaceFunctions_loop h [] interfaceType declarationKind inResource checker =
     Returned () checker"
| "checkInterfaceFunctions_loop h (function # functions) interfaceType declarationKind
      inResource checker =
     and_then (checkInterfaceFunction h function interfaceType declarationKind inResource checker)
       (\<lambda>u c. checkInterfaceFunctions_loop h functions interfaceType declarationKind
                 inResource c)"

definition checkInterfaceFunctions ::
  "'x Helpers \<Rightarrow> FunctionDeclaration list \<Rightarrow> nat \<Rightarrow> DeclarationKind \<Rightarrow> 'x Checker
    \<Rightarrow> (unit, 'x Checker) Outcome" where
  "checkInterfaceFunctions h functions interfaceType declarationKind checker =
     and_then (read_interfaceType interfaceType checker)
       (\<lambda>ty c.
          checkInterfaceFunctions_loop h functions interfaceType declarationKind
            (TypeCompositeKind ty = CompositeKindResource) c)"









section \<open>Phase 1: declaring an interface declaration\<close>

text \<open>
  The two loops of lines 208 to 216: every nested type is stored in the enclosing type's
  \<open>NestedTypes\<close> under its own identifier, and its \<open>ContainerType\<close> is set to the enclosing
  type. Interface types come first, composite types second.
\<close>

definition attachNestedInterfaceType :: "nat \<Rightarrow> nat \<Rightarrow> 'x Checker \<Rightarrow> (unit, 'x Checker) Outcome" where
  "attachNestedInterfaceType interfaceType nestedInterfaceType checker =
     and_then (read_interfaceType nestedInterfaceType checker)
       (\<lambda>nested c0.
          and_then
            (write_interfaceType interfaceType
               (\<lambda>ty. ty\<lparr>NestedTypes :=
                  (NestedTypes ty)(TypeIdentifier nested \<mapsto> InterfaceTypePtr nestedInterfaceType)\<rparr>)
               c0)
            (\<lambda>u c1.
               write_interfaceType nestedInterfaceType
                 (\<lambda>ty. ty\<lparr>ContainerType := Some (InterfaceTypePtr interfaceType)\<rparr>) c1))"

definition attachNestedCompositeType :: "nat \<Rightarrow> nat \<Rightarrow> 'x Checker \<Rightarrow> (unit, 'x Checker) Outcome" where
  "attachNestedCompositeType interfaceType nestedCompositeType checker =
     and_then (read_compositeType nestedCompositeType checker)
       (\<lambda>nested c0.
          and_then
            (write_interfaceType interfaceType
               (\<lambda>ty. ty\<lparr>NestedTypes :=
                  (NestedTypes ty)(CompositeIdentifier nested \<mapsto> CompositeTypePtr nestedCompositeType)\<rparr>)
               c0)
            (\<lambda>u c1.
               write_compositeType nestedCompositeType
                 (\<lambda>ty. ty\<lparr>CompositeContainerType := Some (InterfaceTypePtr interfaceType)\<rparr>)
                 c1))"

fun attachNestedInterfaceTypes ::
  "nat \<Rightarrow> nat list \<Rightarrow> 'x Checker \<Rightarrow> (unit, 'x Checker) Outcome" where
  "attachNestedInterfaceTypes interfaceType [] checker = Returned () checker"
| "attachNestedInterfaceTypes interfaceType (nested # rest) checker =
     and_then (attachNestedInterfaceType interfaceType nested checker)
       (\<lambda>u c. attachNestedInterfaceTypes interfaceType rest c)"

fun attachNestedCompositeTypes ::
  "nat \<Rightarrow> nat list \<Rightarrow> 'x Checker \<Rightarrow> (unit, 'x Checker) Outcome" where
  "attachNestedCompositeTypes interfaceType [] checker = Returned () checker"
| "attachNestedCompositeTypes interfaceType (nested # rest) checker =
     and_then (attachNestedCompositeType interfaceType nested checker)
       (\<lambda>u c. attachNestedCompositeTypes interfaceType rest c)"

text \<open>
  The function literal of lines 187 to 218: both scope stacks are entered, each \<open>Leave\<close>
  deferred at once, and the nested declarations are visited and attached.
\<close>

definition declareInterfaceDeclaration_nested ::
  "'x Helpers \<Rightarrow> InterfaceDeclaration \<Rightarrow> nat \<Rightarrow> 'x Checker \<Rightarrow> (unit, 'x Checker) Outcome" where
  "declareInterfaceDeclaration_nested h declaration interfaceType checker =
     and_then (typeActivations_Enter checker)
       (\<lambda>u c1. deferred typeActivations_Leave
          (and_then (valueActivations_Enter c1)
             (\<lambda>u c2. deferred valueActivations_Leave
                (and_then
                   (visitNestedDeclarations h (DeclCompositeKind declaration)
                      (InterfaceDeclaration_DeclarationKind declaration)
                      (CompositeDeclarations declaration) (InterfaceDeclarations declaration)
                      c2)
                   (\<lambda>r c3.
                      and_then
                        (attachNestedInterfaceTypes interfaceType (fst (snd r))
                           (c3\<lparr>InterfaceNestedDeclarations :=
                              (InterfaceNestedDeclarations c3)
                                (DeclPtr declaration \<mapsto> fst r)\<rparr>))
                        (\<lambda>u c4.
                           attachNestedCompositeTypes interfaceType (snd (snd r)) c4))))))"

definition declareInterfaceDeclaration ::
  "'x Helpers \<Rightarrow> InterfaceDeclaration \<Rightarrow> 'x Checker \<Rightarrow> (nat, 'x Checker) Outcome" where
  "declareInterfaceDeclaration h declaration checker =
     (let identifier = DeclIdentifier declaration;
          interfaceType = nextInterfaceType checker;
          c0 = checker
            \<lparr>interfaceTypes := (interfaceTypes checker)
               (interfaceType \<mapsto>
                  \<lparr>Location = CheckerLocation checker,
                   TypeIdentifier = Identifier identifier,
                   TypeCompositeKind = DeclCompositeKind declaration,
                   NestedTypes = Map.empty,
                   TypeMembers = Map.empty,
                   InitializerParameterTypeAnnotations = [],
                   ContainerType = None\<rparr>),
             nextInterfaceType := Suc interfaceType\<rparr>
      in and_then
           (typeActivations_DeclareType identifier (InterfaceTypePtr interfaceType)
              (InterfaceDeclaration_DeclarationKind declaration) (DeclAccess declaration) c0)
           (\<lambda>r c1.
              and_then (report (snd r) c1)
                (\<lambda>u c2.
                   and_then
                     (recordVariableDeclarationOccurrence h (Identifier identifier) (fst r) c2)
                     (\<lambda>u c3.
                        and_then (declareInterfaceDeclaration_nested h declaration interfaceType c3)
                          (\<lambda>u c4.
                             Returned interfaceType
                               (c4\<lparr>InterfaceDeclarationTypes :=
                                  (InterfaceDeclarationTypes c4)
                                    (DeclPtr declaration \<mapsto> interfaceType)\<rparr>))))))"

section \<open>Runtime values and the visitor\<close>

text \<open>
  Modelled from the spec: the value types and their \<open>Accept\<close> methods are not part of
  the sources, which hold only the \<open>Visitor\<close> interface and \<open>EmptyVisitor\<close>. The variants
  are those the \<open>Visitor\<close> interface names; their contents follow the spec's data model.
  Containers are exactly array, dictionary, composite record and optional-present: an
  array owns its elements, a dictionary its entries (key and entry value, in entry
  order), a composite its named fields (in declaration order), an optional-present its
  one wrapped value. Every other variant is a leaf for traversal, also those that refer
  to another value (an ephemeral reference, a bound function's receiver).
\<close>

datatype Value =
    TypeValue nat
  | VoidValue 
  | BoolValue bool
  | StringValue string
  | ArrayValue "Value list"
  | IntValue int
  | Int8Value int
  | Int16Value int
  | Int32Value int
  | Int64Value int
  | Int128Value int
  | Int256Value int
  | UIntValue nat
  | UInt8Value nat
  | UInt16Value nat
  | UInt32Value nat
  | UInt64Value nat
  | UInt128Value nat
  | UInt256Value nat
  | Word8Value nat
  | Word16Value nat
  | Word32Value nat
  | Word64Value nat
  | Fix64Value int
  | UFix64Value int
  | CompositeValue string "(string \<times> Value) list"
  | DictionaryValue "(string \<times> Value) list"
  | NilValue 
  | SomeValue Value
  | StorageReferenceValue nat string
  | EphemeralReferenceValue Value
  | AddressValue nat
  | AuthAccountValue nat
  | PublicAccountValue nat
  | PathValue string string
  | CapabilityValue nat string nat
  | LinkValue string nat
  | InterpretedFunctionValue nat
  | HostFunctionValue nat
  | BoundFunctionValue Value nat
  | AuthAccountContractsValue nat
  | DeployedContractValue nat

text \<open>
  A callback slot of \<open>EmptyVisitor\<close>: a Go function value that receives the interpreter
  and the value and may change the world state \<open>'s\<close> or panic. A container callback
  also returns whether to descend. \<open>None\<close> is the nil function value.
\<close>

type_synonym ('i, 's) leaf_callback = "'i \<Rightarrow> Value \<Rightarrow> 's \<Rightarrow> (unit, 's) Outcome"

type_synonym ('i, 's) container_callback = "'i \<Rightarrow> Value \<Rightarrow> 's \<Rightarrow> (bool, 's) Outcome"

record ('i, 's) EmptyVisitor =
  ValueVisitor :: "('i, 's) leaf_callback option"
  TypeValueVisitor :: "('i, 's) leaf_callback option"
  VoidValueVisitor :: "('i, 's) leaf_callback option"
  BoolValueVisitor :: "('i, 's) leaf_callback option"
  StringValueVisitor :: "('i, 's) leaf_callback option"
  ArrayValueVisitor :: "('i, 's) container_callback option"
  IntValueVisitor :: "('i, 's) leaf_callback option"
  Int8ValueVisitor :: "('i, 's) leaf_callback option"
  Int16ValueVisitor :: "('i, 's) leaf_callback option"
  Int32ValueVisitor :: "('i, 's) leaf_callback option"
  Int64ValueVisitor :: "('i, 's) leaf_callback option"
  Int128ValueVisitor :: "('i, 's) leaf_callback option"
  Int256ValueVisitor :: "('i, 's) leaf_callback option"
  UIntValueVisitor :: "('i, 's) leaf_callback option"
  UInt8ValueVisitor :: "('i, 's) leaf_callback option"
  UInt16ValueVisitor :: "('i, 's) leaf_callback option"
  UInt32ValueVisitor :: "('i, 's) leaf_callback option"
  UInt64ValueVisitor :: "('i, 's) leaf_callback option"
  UInt128ValueVisitor :: "('i, 's) leaf_callback option"
  UInt256ValueVisitor :: "('i, 's) leaf_callback option"
  Word8ValueVisitor :: "('i, 's) leaf_callback option"
  Word16ValueVisitor :: "('i, 's) leaf_callback option"
  Word32ValueVisitor :: "('i, 's) leaf_callback option"
  Word64ValueVisitor :: "('i, 's) leaf_callback option"
  Fix64ValueVisitor :: "('i, 's) leaf_callback option"
  UFix64ValueVisitor :: "('i, 's) leaf_callback option"
  CompositeValueVisitor :: "('i, 's) container_callback option"
  DictionaryValueVisitor :: "('i, 's) container_callback option"
  NilValueVisitor :: "('i, 's) leaf_callback option"
  SomeValueVisitor :: "('i, 's) container_callback option"
  StorageReferenceValueVisitor :: "('i, 's) leaf_callback option"
  EphemeralReferenceValueVisitor :: "('i, 's) leaf_callback option"
  AddressValueVisitor :: "('i, 's) leaf_callback option"
  AuthAccountValueVisitor :: "('i, 's) leaf_callback option"
  PublicAccountValueVisitor :: "('i, 's) leaf_callback option"
  PathValueVisitor :: "('i, 's) leaf_callback option"
  CapabilityValueVisitor :: "('i, 's) leaf_callback option"
  LinkValueVisitor :: "('i, 's) leaf_callback option"
  InterpretedFunctionValueVisitor :: "('i, 's) leaf_callback option"
  HostFunctionValueVisitor :: "('i, 's) leaf_callback option"
  BoundFunctionValueVisitor :: "('i, 's) leaf_callback option"
  AuthAccountContractsValueVisitor :: "('i, 's) leaf_callback option"
  DeployedContractValueVisitor :: "('i, 's) leaf_callback option"

definition VisitValue ::
  "('i, 's) EmptyVisitor \<Rightarrow> 'i \<Rightarrow> Value \<Rightarrow> 's \<Rightarrow> (unit, 's) Outcome" where
  "VisitValue v interpreter val s =
     (case ValueVisitor v of
        None \<Rightarrow> Returned () s
      | Some f \<Rightarrow> f interpreter val s)"

definition VisitTypeValue ::
  "('i, 's) EmptyVisitor \<Rightarrow> 'i \<Rightarrow> Value \<Rightarrow> 's \<Rightarrow> (unit, 's) Outcome" where
  "VisitTypeValue v interpreter val s =
     (case TypeValueVisitor v of
        None \<Rightarrow> Returned () s
      | Some f \<Rightarrow> f interpreter val s)"

definition VisitVoidValue ::
  "('i, 's) EmptyVisitor \<Rightarrow> 'i \<Rightarrow> Value \<Rightarrow> 's \<Rightarrow> (unit, 's) Outcome" where
  "VisitVoidValue v interpreter val s =
     (case VoidValueVisitor v of
        None \<Rightarrow> Returned () s
      | Some f \<Rightarrow> f interpreter val s)"

definition VisitBoolValue ::
  "('i, 's) EmptyVisitor \<Rightarrow> 'i \<Rightarrow> Value \<Rightarrow> 's \<Rightarrow> (unit, 's) Outcome" where
  "VisitBoolValue v interpreter val s =
     (case BoolValueVisitor v of
        None \<Rightarrow> Returned () s
      | Some f \<Rightarrow> f interpreter val s)"

definition VisitStringValue ::
  "('i, 's) EmptyVisitor \<Rightarrow> 'i \<Rightarrow> Value \<Rightarrow> 's \<Rightarrow> (unit, 's) Outcome" where
  "VisitStringValue v interpreter val s =
     (case StringValueVisitor v of
        None \<Rightarrow> Returned () s
      | Some f \<Rightarrow> f interpreter val s)"

definition VisitArrayValue ::
  "('i, 's) EmptyVisitor \<Rightarrow> 'i \<Rightarrow> Value \<Rightarrow> 's \<Rightarrow> (bool, 's) Outcome" where
  "VisitArrayValue v interpreter val s =
     (case ArrayValueVisitor v of
        None \<Rightarrow> Returned True s
      | Some f \<Rightarrow> f interpreter val s)"

definition VisitIntValue ::
  "('i, 's) EmptyVisitor \<Rightarrow> 'i \<Rightarrow> Value \<Rightarrow> 's \<Rightarrow> (unit, 's) Outcome" where
  "VisitIntValue v interpreter val s =
     (case IntValueVisitor v of
        None \<Rightarrow> Returned () s
      | Some f \<Rightarrow> f interpreter val s)"

definition VisitInt8Value ::
  "('i, 's) EmptyVisitor \<Rightarrow> 'i \<Rightarrow> Value \<Rightarrow> 's \<Rightarrow> (unit, 's) Outcome" where
  "VisitInt8Value v interpreter val s =
     (case Int8ValueVisitor v of
        None \<Rightarrow> Returned () s
      | Some f \<Rightarrow> f interpreter val s)"

definition VisitInt16Value ::
  "('i, 's) EmptyVisitor \<Rightarrow> 'i \<Rightarrow> Value \<Rightarrow> 's \<Rightarrow> (unit, 's) Outcome" where
  "VisitInt16Value v interpreter val s =
     (case Int16ValueVisitor v of
        None \<Rightarrow> Returned () s
      | Some f \<Rightarrow> f interpreter val s)"

definition VisitInt32Value ::
  "('i, 's) EmptyVisitor \<Rightarrow> 'i \<Rightarrow> Value \<Rightarrow> 's \<Rightarrow> (unit, 's) Outcome" where
  "VisitInt32Value v interpreter val s =
     (case Int32ValueVisitor v of
        None \<Rightarrow> Returned () s
      | Some f \<Rightarrow> f interpreter val s)"

definition VisitInt64Value ::
  "('i, 's) EmptyVisitor \<Rightarrow> 'i \<Rightarrow> Value \<Rightarrow> 's \<Rightarrow> (unit, 's) Outcome" where
  "VisitInt64Value v interpreter val s =
     (case Int64ValueVisitor v of
        None \<Rightarrow> Returned () s
      | Some f \<Rightarrow> f interpreter val s)"

definition VisitInt128Value ::
  "('i, 's) EmptyVisitor \<Rightarrow> 'i \<Rightarrow> Value \<Rightarrow> 's \<Rightarrow> (unit, 's) Outcome" where
  "VisitInt128Value v interpreter val s =
     (case Int128ValueVisitor v of
        None \<Rightarrow> Returned () s
      | Some f \<Rightarrow> f interpreter val s)"

definition VisitInt256Value ::
  "('i, 's) EmptyVisitor \<Rightarrow> 'i \<Rightarrow> Value \<Rightarrow> 's \<Rightarrow> (unit, 's) Outcome" where
  "VisitInt256Value v interpreter val s =
     (case Int256ValueVisitor v of
        None \<Rightarrow> Returned () s
      | Some f \<Rightarrow> f interpreter val s)"

definition VisitUIntValue ::
  "('i, 's) EmptyVisitor \<Rightarrow> 'i \<Rightarrow> Value \<Rightarrow> 's \<Rightarrow> (unit, 's) Outcome" where
  "VisitUIntValue v interpreter val s =
     (case UIntValueVisitor v of
        None \<Rightarrow> Returned () s
      | Some f \<Rightarrow> f interpreter val s)"

definition VisitUInt8Value ::
  "('i, 's) EmptyVisitor \<Rightarrow> 'i \<Rightarrow> Value \<Rightarrow> 's \<Rightarrow> (unit, 's) Outcome" where
  "VisitUInt8Value v interpreter val s =
     (case UInt8ValueVisitor v of
        None \<Rightarrow> Returned () s
      | Some f \<Rightarrow> f interpreter val s)"

definition VisitUInt16Value ::
  "('i, 's) EmptyVisitor \<Rightarrow> 'i \<Rightarrow> Value \<Rightarrow> 's \<Rightarrow> (unit, 's) Outcome" where
  "VisitUInt16Value v interpreter val s =
     (case UInt16ValueVisitor v of
        None \<Rightarrow> Returned () s
      | Some f \<Rightarrow> f interpreter val s)"

definition VisitUInt32Value ::
  "('i, 's) EmptyVisitor \<Rightarrow> 'i \<Rightarrow> Value \<Rightarrow> 's \<Rightarrow> (unit, 's) Outcome" where
  "VisitUInt32Value v interpreter val s =
     (case UInt32ValueVisitor v of
        None \<Rightarrow> Returned () s
      | Some f \<Rightarrow> f interpreter val s)"

definition VisitUInt64Value ::
  "('i, 's) EmptyVisitor \<Rightarrow> 'i \<Rightarrow> Value \<Rightarrow> 's \<Rightarrow> (unit, 's) Outcome" where
  "VisitUInt64Value v interpreter val s =
     (case UInt64ValueVisitor v of
        None \<Rightarrow> Returned () s
      | Some f \<Rightarrow> f interpreter val s)"

definition VisitUInt128Value ::
  "('i, 's) EmptyVisitor \<Rightarrow> 'i \<Rightarrow> Value \<Rightarrow> 's \<Rightarrow> (unit, 's) Outcome" where
  "VisitUInt128Value v interpreter val s =
     (case UInt128ValueVisitor v of
        None \<Rightarrow> Returned () s
      | Some f \<Rightarrow> f interpreter val s)"

definition VisitUInt256Value ::
  "('i, 's) EmptyVisitor \<Rightarrow> 'i \<Rightarrow> Value \<Rightarrow> 's \<Rightarrow> (unit, 's) Outcome" where
  "VisitUInt256Value v interpreter val s =
     (case UInt256ValueVisitor v of
        None \<Rightarrow> Returned () s
      | Some f \<Rightarrow> f interpreter val s)"

definition VisitWord8Value ::
  "('i, 's) EmptyVisitor \<Rightarrow> 'i \<Rightarrow> Value \<Rightarrow> 's \<Rightarrow> (unit, 's) Outcome" where
  "VisitWord8Value v interpreter val s =
     (case Word8ValueVisitor v of
        None \<Rightarrow> Returned () s
      | Some f \<Rightarrow> f interpreter val s)"

definition VisitWord16Value ::
  "('i, 's) EmptyVisitor \<Rightarrow> 'i \<Rightarrow> Value \<Rightarrow> 's \<Rightarrow> (unit, 's) Outcome" where
  "VisitWord16Value v interpreter val s =
     (case Word16ValueVisitor v of
        None \<Rightarrow> Returned () s
      | Some f \<Rightarrow> f interpreter val s)"

definition VisitWord32Value ::
  "('i, 's) EmptyVisitor \<Rightarrow> 'i \<Rightarrow> Value \<Rightarrow> 's \<Rightarrow> (unit, 's) Outcome" where
  "VisitWord32Value v interpreter val s =
     (case Word32ValueVisitor v of
        None \<Rightarrow> Returned () s
      | Some f \<Rightarrow> f interpreter val s)"

definition VisitWord64Value ::
  "('i, 's) EmptyVisitor \<Rightarrow> 'i \<Rightarrow> Value \<Rightarrow> 's \<Rightarrow> (unit, 's) Outcome" where
  "VisitWord64Value v interpreter val s =
     (case Word64ValueVisitor v of
        None \<Rightarrow> Returned () s
      | Some f \<Rightarrow> f interpreter val s)"

definition VisitFix64Value ::
  "('i, 's) EmptyVisitor \<Rightarrow> 'i \<Rightarrow> Value \<Rightarrow> 's \<Rightarrow> (unit, 's) Outcome" where
  "VisitFix64Value v interpreter val s =
     (case Fix64ValueVisitor v of
        None \<Rightarrow> Returned () s
      | Some f \<Rightarrow> f interpreter val s)"

definition VisitUFix64Value ::
  "('i, 's) EmptyVisitor \<Rightarrow> 'i \<Rightarrow> Value \<Rightarrow> 's \<Rightarrow> (unit, 's) Outcome" where
  "VisitUFix64Value v interpreter val s =
     (case UFix64ValueVisitor v of
        None \<Rightarrow> Returned () s
      | Some f \<Rightarrow> f interpreter val s)"

definition VisitCompositeValue ::
  "('i, 's) EmptyVisitor \<Rightarrow> 'i \<Rightarrow> Value \<Rightarrow> 's \<Rightarrow> (bool, 's) Outcome" where
  "VisitCompositeValue v interpreter val s =
     (case CompositeValueVisitor v of
        None \<Rightarrow> Returned True s
      | Some f \<Rightarrow> f interpreter val s)"

definition VisitDictionaryValue ::
  "('i, 's) EmptyVisitor \<Rightarrow> 'i \<Rightarrow> Value \<Rightarrow> 's \<Rightarrow> (bool, 's) Outcome" where
  "VisitDictionaryValue v interpreter val s =
     (case DictionaryValueVisitor v of
        None \<Rightarrow> Returned True s
      | Some f \<Rightarrow> f interpreter val s)"

definition VisitNilValue ::
  "('i, 's) EmptyVisitor \<Rightarrow> 'i \<Rightarrow> Value \<Rightarrow> 's \<Rightarrow> (unit, 's) Outcome" where
  "VisitNilValue v interpreter val s =
     (case NilValueVisitor v of
        None \<Rightarrow> Returned () s
      | Some f \<Rightarrow> f interpreter val s)"

definition VisitSomeValue ::
  "('i, 's) EmptyVisitor \<Rightarrow> 'i \<Rightarrow> Value \<Rightarrow> 's \<Rightarrow> (bool, 's) Outcome" where
  "VisitSomeValue v interpreter val s =
     (case SomeValueVisitor v of
        None \<Rightarrow> Returned True s
      | Some f \<Rightarrow> f interpreter val s)"

definition VisitStorageReferenceValue ::
  "('i, 's) EmptyVisitor \<Rightarrow> 'i \<Rightarrow> Value \<Rightarrow> 's \<Rightarrow> (unit, 's) Outcome" where
  "VisitStorageReferenceValue v interpreter val s =
     (case StorageReferenceValueVisitor v of
        None \<Rightarrow> Returned () s
      | Some f \<Rightarrow> f interpreter val s)"

definition VisitEphemeralReferenceValue ::
  "('i, 's) EmptyVisitor \<Rightarrow> 'i \<Rightarrow> Value \<Rightarrow> 's \<Rightarrow> (unit, 's) Outcome" where
  "VisitEphemeralReferenceValue v interpreter val s =
     (case EphemeralReferenceValueVisitor v of
        None \<Rightarrow> Returned () s
      | Some f \<Rightarrow> f interpreter val s)"

definition VisitAddressValue ::
  "('i, 's) EmptyVisitor \<Rightarrow> 'i \<Rightarrow> Value \<Rightarrow> 's \<Rightarrow> (unit, 's) Outcome" where
  "VisitAddressValue v interpreter val s =
     (case AddressValueVisitor v of
        None \<Rightarrow> Returned () s
      | Some f \<Rightarrow> f interpreter val s)"

definition VisitAuthAccountValue ::
  "('i, 's) EmptyVisitor \<Rightarrow> 'i \<Rightarrow> Value \<Rightarrow> 's \<Rightarrow> (unit, 's) Outcome" where
  "VisitAuthAccountValue v interpreter val s =
     (case AuthAccountValueVisitor v of
        None \<Rightarrow> Returned () s
      | Some f \<Rightarrow> f interpreter val s)"

definition VisitPublicAccountValue ::
  "('i, 's) EmptyVisitor \<Rightarrow> 'i \<Rightarrow> Value \<Rightarrow> 's \<Rightarrow> (unit, 's) Outcome" where
  "VisitPublicAccountValue v interpreter val s =
     (case PublicAccountValueVisitor v of
        None \<Rightarrow> Returned () s
      | Some f \<Rightarrow> f interpreter val s)"

definition VisitPathValue ::
  "('i, 's) EmptyVisitor \<Rightarrow> 'i \<Rightarrow> Value \<Rightarrow> 's \<Rightarrow> (unit, 's) Outcome" where
  "VisitPathValue v interpreter val s =
     (case PathValueVisitor v of
        None \<Rightarrow> Returned () s
      | Some f \<Rightarrow> f interpreter val s)"

definition VisitCapabilityValue ::
  "('i, 's) EmptyVisitor \<Rightarrow> 'i \<Rightarrow> Value \<Rightarrow> 's \<Rightarrow> (unit, 's) Outcome" where
  "VisitCapabilityValue v interpreter val s =
     (case CapabilityValueVisitor v of
        None \<Rightarrow> Returned () s
      | Some f \<Rightarrow> f interpreter val s)"

definition VisitLinkValue ::
  "('i, 's) EmptyVisitor \<Rightarrow> 'i \<Rightarrow> Value \<Rightarrow> 's \<Rightarrow> (unit, 's) Outcome" where
  "VisitLinkValue v interpreter val s =
     (case LinkValueVisitor v of
        None \<Rightarrow> Returned () s
      | Some f \<Rightarrow> f interpreter val s)"

definition VisitInterpretedFunctionValue ::
  "('i, 's) EmptyVisitor \<Rightarrow> 'i \<Rightarrow> Value \<Rightarrow> 's \<Rightarrow> (unit, 's) Outcome" where
  "VisitInterpretedFunctionValue v interpreter val s =
     (case InterpretedFunctionValueVisitor v of
        None \<Rightarrow> Returned () s
      | Some f \<Rightarrow> f interpreter val s)"

definition VisitHostFunctionValue ::
  "('i, 's) EmptyVisitor \<Rightarrow> 'i \<Rightarrow> Value \<Rightarrow> 's \<Rightarrow> (unit, 's) Outcome" where
  "VisitHostFunctionValue v interpreter val s =
     (case HostFunctionValueVisitor v of
        None \<Rightarrow> Returned () s
      | Some f \<Rightarrow> f interpreter val s)"

definition VisitBoundFunctionValue ::
  "('i, 's) EmptyVisitor \<Rightarrow> 'i \<Rightarrow> Value \<Rightarrow> 's \<Rightarrow> (unit, 's) Outcome" where
  "VisitBoundFunctionValue v interpreter val s =
     (case BoundFunctionValueVisitor v of
        None \<Rightarrow> Returned () s
      | Some f \<Rightarrow> f interpreter val s)"

definition VisitAuthAccountContractsValue ::
  "('i, 's) EmptyVisitor \<Rightarrow> 'i \<Rightarrow> Value \<Rightarrow> 's \<Rightarrow> (unit, 's) Outcome" where
  "VisitAuthAccountContractsValue v interpreter val s =
     (case AuthAccountContractsValueVisitor v of
        None \<Rightarrow> Returned () s
      | Some f \<Rightarrow> f interpreter val s)"

definition VisitDeployedContractValue ::
  "('i, 's) EmptyVisitor \<Rightarrow> 'i \<Rightarrow> Value \<Rightarrow> 's \<Rightarrow> (unit, 's) Outcome" where
  "VisitDeployedContractValue v interpreter val s =
     (case DeployedContractValueVisitor v of
        None \<Rightarrow> Returned () s
      | Some f \<Rightarrow> f interpreter val s)"

text \<open>
  What is required of one slot, as a relation between the slot and its \<open>Visit\<close>
  method at a visitor \<open>v\<close> and arguments \<open>interpreter\<close>, \<open>val\<close> in state \<open>s\<close>: an unset leaf
  slot makes the method a no-op, an unset container slot makes it answer "continue",
  and a set slot is called with the method's own arguments, its outcome being the
  method's outcome.
\<close>

definition leaf_slot_contract ::
  "(('i, 's) EmptyVisitor \<Rightarrow> ('i, 's) leaf_callback option)
    \<Rightarrow> (('i, 's) EmptyVisitor \<Rightarrow> 'i \<Rightarrow> Value \<Rightarrow> 's \<Rightarrow> (unit, 's) Outcome)
    \<Rightarrow> ('i, 's) EmptyVisitor \<Rightarrow> 'i \<Rightarrow> Value \<Rightarrow> 's \<Rightarrow> bool" where
  "leaf_slot_contract slot method v interpreter val s =
     ((slot v = None \<longrightarrow> method v interpreter val s = Returned () s)
      \<and> (\<forall>f. slot v = Some f \<longrightarrow> method v interpreter val s = f interpreter val s))"

definition container_slot_contract ::
  "(('i, 's) EmptyVisitor \<Rightarrow> ('i, 's) container_callback option)
    \<Rightarrow> (('i, 's) EmptyVisitor \<Rightarrow> 'i \<Rightarrow> Value \<Rightarrow> 's \<Rightarrow> (bool, 's) Outcome)
    \<Rightarrow> ('i, 's) EmptyVisitor \<Rightarrow> 'i \<Rightarrow> Value \<Rightarrow> 's \<Rightarrow> bool" where
  "container_slot_contract slot method v interpreter val s =
     ((slot v = None \<longrightarrow> method v interpreter val s = Returned True s)
      \<and> (\<forall>f. slot v = Some f \<longrightarrow> method v interpreter val s = f interpreter val s))"

text \<open>
  Modelled from the spec: the dispatcher. Every variant's \<open>Accept\<close> calls the visitor's
  method for that exact variant. A leaf has no recursion step. A container's method
  answers whether to descend; if so the children are accepted in order, otherwise the
  subtree is pruned. The result lists the \<open>Visit\<close> calls made, in the order made, each
  as the position of the node (the child indices from the root) and the node. The list
  is an observation of the traversal, not something the program builds.
\<close>

fun accept ::
  "('i, 's) EmptyVisitor \<Rightarrow> 'i \<Rightarrow> nat list \<Rightarrow> Value \<Rightarrow> 's
    \<Rightarrow> ((nat list \<times> Value) list, 's) Outcome"
and accept_each ::
  "('i, 's) EmptyVisitor \<Rightarrow> 'i \<Rightarrow> nat list \<Rightarrow> nat \<Rightarrow> Value list \<Rightarrow> 's
    \<Rightarrow> ((nat list \<times> Value) list, 's) Outcome"
and accept_entries ::
  "('i, 's) EmptyVisitor \<Rightarrow> 'i \<Rightarrow> nat list \<Rightarrow> nat \<Rightarrow> (string \<times> Value) list \<Rightarrow> 's
    \<Rightarrow> ((nat list \<times> Value) list, 's) Outcome"
where
  "accept visitor interpreter path (ArrayValue elements) s =
     and_then (VisitArrayValue visitor interpreter (ArrayValue elements) s)
       (\<lambda>descend s1.
          if \<not> descend then Returned [(path, ArrayValue elements)] s1
          else and_then (accept_each visitor interpreter path 0 elements s1)
                 (\<lambda>calls s2. Returned ((path, ArrayValue elements) # calls) s2))"
| "accept visitor interpreter path (DictionaryValue entries) s =
     and_then (VisitDictionaryValue visitor interpreter (DictionaryValue entries) s)
       (\<lambda>descend s1.
          if \<not> descend then Returned [(path, DictionaryValue entries)] s1
          else and_then (accept_entries visitor interpreter path 0 entries s1)
                 (\<lambda>calls s2. Returned ((path, DictionaryValue entries) # calls) s2))"
| "accept visitor interpreter path (CompositeValue name members) s =
     and_then (VisitCompositeValue visitor interpreter (CompositeValue name members) s)
       (\<lambda>descend s1.
          if \<not> descend then Returned [(path, CompositeValue name members)] s1
          else and_then (accept_entries visitor interpreter path 0 members s1)
                 (\<lambda>calls s2. Returned ((path, CompositeValue name members) # calls) s2))"
| "accept visitor interpreter path (SomeValue inner) s =
     and_then (VisitSomeValue visitor interpreter (SomeValue inner) s)
       (\<lambda>descend s1.
          if \<not> descend then Returned [(path, SomeValue inner)] s1
          else and_then (accept_each visitor interpreter path 0 [inner] s1)
                 (\<lambda>calls s2. Returned ((path, SomeValue inner) # calls) s2))"
| "accept visitor interpreter path (TypeValue a) s =
     and_then (VisitTypeValue visitor interpreter (TypeValue a) s)
       (\<lambda>u s1. Returned [(path, (TypeValue a))] s1)"
| "accept visitor interpreter path VoidValue s =
     and_then (VisitVoidValue visitor interpreter VoidValue s)
       (\<lambda>u s1. Returned [(path, VoidValue)] s1)"
| "accept visitor interpreter path (BoolValue a) s =
     and_then (VisitBoolValue visitor interpreter (BoolValue a) s)
       (\<lambda>u s1. Returned [(path, (BoolValue a))] s1)"
| "accept visitor interpreter path (StringValue a) s =
     and_then (VisitStringValue visitor interpreter (StringValue a) s)
       (\<lambda>u s1. Returned [(path, (StringValue a))] s1)"
| "accept visitor interpreter path (IntValue a) s =
     and_then (VisitIntValue visitor interpreter (IntValue a) s)
       (\<lambda>u s1. Returned [(path, (IntValue a))] s1)"
| "accept visitor interpreter path (Int8Value a) s =
     and_then (VisitInt8Value visitor interpreter (Int8Value a) s)
       (\<lambda>u s1. Returned [(path, (Int8Value a))] s1)"
| "accept visitor interpreter path (Int16Value a) s =
     and_then (VisitInt16Value visitor interpreter (Int16Value a) s)
       (\<lambda>u s1. Returned [(path, (Int16Value a))] s1)"
| "accept visitor interpreter path (Int32Value a) s =
     and_then (VisitInt32Value visitor interpreter (Int32Value a) s)
       (\<lambda>u s1. Returned [(path, (Int32Value a))] s1)"
| "accept visitor interpreter path (Int64Value a) s =
     and_then (VisitInt64Value visitor interpreter (Int64Value a) s)
       (\<lambda>u s1. Returned [(path, (Int64Value a))] s1)"
| "accept visitor interpreter path (Int128Value a) s =
     and_then (VisitInt128Value visitor interpreter (Int128Value a) s)
       (\<lambda>u s1. Returned [(path, (Int128Value a))] s1)"
| "accept visitor interpreter path (Int256Value a) s =
     and_then (VisitInt256Value visitor interpreter (Int256Value a) s)
       (\<lambda>u s1. Returned [(path, (Int256Value a))] s1)"
| "accept visitor interpreter path (UIntValue a) s =
     and_then (VisitUIntValue visitor interpreter (UIntValue a) s)
       (\<lambda>u s1. Returned [(path, (UIntValue a))] s1)"
| "accept visitor interpreter path (UInt8Value a) s =
     and_then (VisitUInt8Value visitor interpreter (UInt8Value a) s)
       (\<lambda>u s1. Returned [(path, (UInt8Value a))] s1)"
| "accept visitor interpreter path (UInt16Value a) s =
     and_then (VisitUInt16Value visitor interpreter (UInt16Value a) s)
       (\<lambda>u s1. Returned [(path, (UInt16Value a))] s1)"
| "accept visitor interpreter path (UInt32Value a) s =
     and_then (VisitUInt32Value visitor interpreter (UInt32Value a) s)
       (\<lambda>u s1. Returned [(path, (UInt32Value a))] s1)"
| "accept visitor interpreter path (UInt64Value a) s =
     and_then (VisitUInt64Value visitor interpreter (UInt64Value a) s)
       (\<lambda>u s1. Returned [(path, (UInt64Value a))] s1)"
| "accept visitor interpreter path (UInt128Value a) s =
     and_then (VisitUInt128Value visitor interpreter (UInt128Value a) s)
       (\<lambda>u s1. Returned [(path, (UInt128Value a))] s1)"
| "accept visitor interpreter path (UInt256Value a) s =
     and_then (VisitUInt256Value visitor interpreter (UInt256Value a) s)
       (\<lambda>u s1. Returned [(path, (UInt256Value a))] s1)"
| "accept visitor interpreter path (Word8Value a) s =
     and_then (VisitWord8Value visitor interpreter (Word8Value a) s)
       (\<lambda>u s1. Returned [(path, (Word8Value a))] s1)"
| "accept visitor interpreter path (Word16Value a) s =
     and_then (VisitWord16Value visitor interpreter (Word16Value a) s)
       (\<lambda>u s1. Returned [(path, (Word16Value a))] s1)"
| "accept visitor interpreter path (Word32Value a) s =
     and_then (VisitWord32Value visitor interpreter (Word32Value a) s)
       (\<lambda>u s1. Returned [(path, (Word32Value a))] s1)"
| "accept visitor interpreter path (Word64Value a) s =
     and_then (VisitWord64Value visitor interpreter (Word64Value a) s)
       (\<lambda>u s1. Returned [(path, (Word64Value a))] s1)"
| "accept visitor interpreter path (Fix64Value a) s =
     and_then (VisitFix64Value visitor interpreter (Fix64Value a) s)
       (\<lambda>u s1. Returned [(path, (Fix64Value a))] s1)"
| "accept visitor interpreter path (UFix64Value a) s =
     and_then (VisitUFix64Value visitor interpreter (UFix64Value a) s)
       (\<lambda>u s1. Returned [(path, (UFix64Value a))] s1)"
| "accept visitor interpreter path NilValue s =
     and_then (VisitNilValue visitor interpreter NilValue s)
       (\<lambda>u s1. Returned [(path, NilValue)] s1)"
| "accept visitor interpreter path (StorageReferenceValue a b) s =
     and_then (VisitStorageReferenceValue visitor interpreter (StorageReferenceValue a b) s)
       (\<lambda>u s1. Returned [(path, (StorageReferenceValue a b))] s1)"
| "accept visitor interpreter path (EphemeralReferenceValue a) s =
     and_then (VisitEphemeralReferenceValue visitor interpreter (EphemeralReferenceValue a) s)
       (\<lambda>u s1. Returned [(path, (EphemeralReferenceValue a))] s1)"
| "accept visitor interpreter path (AddressValue a) s =
     and_then (VisitAddressValue visitor interpreter (AddressValue a) s)
       (\<lambda>u s1. Returned [(path, (AddressValue a))] s1)"
| "accept visitor interpreter path (AuthAccountValue a) s =
     and_then (VisitAuthAccountValue visitor interpreter (AuthAccountValue a) s)
       (\<lambda>u s1. Returned [(path, (AuthAccountValue a))] s1)"
| "accept visitor interpreter path (PublicAccountValue a) s =
     and_then (VisitPublicAccountValue visitor interpreter (PublicAccountValue a) s)
       (\<lambda>u s1. Returned [(path, (PublicAccountValue a))] s1)"
| "accept visitor interpreter path (PathValue a b) s =
     and_then (VisitPathValue visitor interpreter (PathValue a b) s)
       (\<lambda>u s1. Returned [(path, (PathValue a b))] s1)"
| "accept visitor interpreter path (CapabilityValue a b c) s =
     and_then (VisitCapabilityValue visitor interpreter (CapabilityValue a b c) s)
       (\<lambda>u s1. Returned [(path, (CapabilityValue a b c))] s1)"
| "accept visitor interpreter path (LinkValue a b) s =
     and_then (VisitLinkValue visitor interpreter (LinkValue a b) s)
       (\<lambda>u s1. Returned [(path, (LinkValue a b))] s1)"
| "accept visitor interpreter path (InterpretedFunctionValue a) s =
     and_then (VisitInterpretedFunctionValue visitor interpreter (InterpretedFunctionValue a) s)
       (\<lambda>u s1. Returned [(path, (InterpretedFunctionValue a))] s1)"
| "accept visitor interpreter path (HostFunctionValue a) s =
     and_then (VisitHostFunctionValue visitor interpreter (HostFunctionValue a) s)
       (\<lambda>u s1. Returned [(path, (HostFunctionValue a))] s1)"
| "accept visitor interpreter path (BoundFunctionValue a b) s =
     and_then (VisitBoundFunctionValue visitor interpreter (BoundFunctionValue a b) s)
       (\<lambda>u s1. Returned [(path, (BoundFunctionValue a b))] s1)"
| "accept visitor interpreter path (AuthAccountContractsValue a) s =
     and_then (VisitAuthAccountContractsValue visitor interpreter (AuthAccountContractsValue a) s)
       (\<lambda>u s1. Returned [(path, (AuthAccountContractsValue a))] s1)"
| "accept visitor interpreter path (DeployedContractValue a) s =
     and_then (VisitDeployedContractValue visitor interpreter (DeployedContractValue a) s)
       (\<lambda>u s1. Returned [(path, (DeployedContractValue a))] s1)"
| "accept_each visitor interpreter path n [] s = Returned [] s"
| "accept_each visitor interpreter path n (x # xs) s =
     and_then (accept visitor interpreter (path @ [n]) x s)
       (\<lambda>calls1 s1.
          and_then (accept_each visitor interpreter path (Suc n) xs s1)
            (\<lambda>calls2 s2. Returned (calls1 @ calls2) s2))"
| "accept_entries visitor interpreter path n [] s = Returned [] s"
| "accept_entries visitor interpreter path n ((k, x) # es) s =
     and_then (accept visitor interpreter (path @ [n]) x s)
       (\<lambda>calls1 s1.
          and_then (accept_entries visitor interpreter path (Suc n) es s1)
            (\<lambda>calls2 s2. Returned (calls1 @ calls2) s2))"

text \<open>The all-default visitor: every callback slot is nil.\<close>

definition default_visitor :: "('i, 's) EmptyVisitor" where
  "default_visitor =
     \<lparr>ValueVisitor = None,
      TypeValueVisitor = None,
      VoidValueVisitor = None,
      BoolValueVisitor = None,
      StringValueVisitor = None,
      ArrayValueVisitor = None,
      IntValueVisitor = None,
      Int8ValueVisitor = None,
      Int16ValueVisitor = None,
      Int32ValueVisitor = None,
      Int64ValueVisitor = None,
      Int128ValueVisitor = None,
      Int256ValueVisitor = None,
      UIntValueVisitor = None,
      UInt8ValueVisitor = None,
      UInt16ValueVisitor = None,
      UInt32ValueVisitor = None,
      UInt64ValueVisitor = None,
      UInt128ValueVisitor = None,
      UInt256ValueVisitor = None,
      Word8ValueVisitor = None,
      Word16ValueVisitor = None,
      Word32ValueVisitor = None,
      Word64ValueVisitor = None,
      Fix64ValueVisitor = None,
      UFix64ValueVisitor = None,
      CompositeValueVisitor = None,
      DictionaryValueVisitor = None,
      NilValueVisitor = None,
      SomeValueVisitor = None,
      StorageReferenceValueVisitor = None,
      EphemeralReferenceValueVisitor = None,
      AddressValueVisitor = None,
      AuthAccountValueVisitor = None,
      PublicAccountValueVisitor = None,
      PathValueVisitor = None,
      CapabilityValueVisitor = None,
      LinkValueVisitor = None,
      InterpretedFunctionValueVisitor = None,
      HostFunctionValueVisitor = None,
      BoundFunctionValueVisitor = None,
      AuthAccountContractsValueVisitor = None,
      DeployedContractValueVisitor = None\<rparr>"

text \<open>
  The spec's words for the traversal order, stated apart from the dispatcher: the
  children of a node, the fixed preorder (a node before its children, the children in
  their order), and the node found at a position.
\<close>

fun children :: "Value \<Rightarrow> Value list" where
  "children (ArrayValue elements) = elements"
| "children (DictionaryValue entries) = map snd entries"
| "children (CompositeValue name members) = map snd members"
| "children (SomeValue inner) = [inner]"
| "children v = []"

fun preorder :: "nat list \<Rightarrow> Value \<Rightarrow> (nat list \<times> Value) list"
and preorder_each :: "nat list \<Rightarrow> nat \<Rightarrow> Value list \<Rightarrow> (nat list \<times> Value) list"
and preorder_entries :: "nat list \<Rightarrow> nat \<Rightarrow> (string \<times> Value) list \<Rightarrow> (nat list \<times> Value) list"
where
  "preorder path (ArrayValue elements) =
     (path, ArrayValue elements) # preorder_each path 0 elements"
| "preorder path (DictionaryValue entries) =
     (path, DictionaryValue entries) # preorder_entries path 0 entries"
| "preorder path (CompositeValue name members) =
     (path, CompositeValue name members) # preorder_entries path 0 members"
| "preorder path (SomeValue inner) =
     (path, SomeValue inner) # preorder_each path 0 [inner]"
| "preorder path v = [(path, v)]"
| "preorder_each path n [] = []"
| "preorder_each path n (x # xs) = preorder (path @ [n]) x @ preorder_each path (Suc n) xs"
| "preorder_entries path n [] = []"
| "preorder_entries path n ((k, x) # es) =
     preorder (path @ [n]) x @ preorder_entries path (Suc n) es"

fun subvalue :: "Value \<Rightarrow> nat list \<Rightarrow> Value option" where
  "subvalue v [] = Some v"
| "subvalue v (n # p) =
     (if n < length (children v) then subvalue (children v ! n) p else None)"

text \<open>
  The positions strictly below a node whose children \<open>xs\<close> are numbered from \<open>n\<close>.
\<close>

definition positions_below :: "nat list \<Rightarrow> nat \<Rightarrow> Value list \<Rightarrow> (nat list \<times> Value) set" where
  "positions_below path n xs =
     {(path @ (n + i) # p, x) | i p x. i < length xs \<and> subvalue (xs ! i) p = Some x}"

section \<open>Notions used to state the properties\<close>




text \<open>
  The body rule of the spec for one function block, as the list of diagnostics it asks
  for: statements are illegal (reported at the first statement), a fully empty body is
  illegal (reported at the block start), pre- and post-conditions alone are legal.
  A function without a block is not subject to the rule.
\<close>

definition functionBlock_diagnostics :: "FunctionBlock \<Rightarrow> DeclarationKind \<Rightarrow> Diagnostic list" where
  "functionBlock_diagnostics block containerKind =
     (case Statements block of
        first # rest \<Rightarrow>
          [InvalidImplementationError (StartPosition first) containerKind DeclarationKindFunction]
      | [] \<Rightarrow>
          if PreConditions block = [] \<and> PostConditions block = []
          then [InvalidImplementationError (StartPos block) containerKind DeclarationKindFunction]
          else [])"

definition function_diagnostics :: "DeclarationKind \<Rightarrow> FunctionDeclaration \<Rightarrow> Diagnostic list" where
  "function_diagnostics containerKind function =
     (case FunctionBlock function of
        None \<Rightarrow> []
      | Some block \<Rightarrow> functionBlock_diagnostics block containerKind)"

text \<open>
  The four scope and signature checks that \<open>checkInterfaceFunctions\<close> calls around the
  body rule return normally and report nothing.
\<close>

definition scope_helpers_silent :: "'x Helpers \<Rightarrow> bool" where
  "scope_helpers_silent h =
     ((\<forall>c. \<exists>c'. enterValueScope h c = Returned () c' \<and> errors c' = errors c)
      \<and> (\<forall>b c. \<exists>c'. leaveValueScope h b c = Returned () c' \<and> errors c' = errors c)
      \<and> (\<forall>t c. \<exists>c'. declareSelfValue h t c = Returned () c' \<and> errors c' = errors c)
      \<and> (\<forall>f options c. \<exists>c'.
            visitFunctionDeclaration h f options c = Returned () c' \<and> errors c' = errors c))"

text \<open>
  The bindings that the two loops of phase 1 write into \<open>NestedTypes\<close>, in the order
  written: each nested interface type under its identifier, then each nested composite
  type under its identifier. \<open>map_of (rev bindings)\<close> is the last binding of each name.
\<close>

definition interface_bindings :: "'x Checker \<Rightarrow> nat list \<Rightarrow> (string \<times> Type) list" where
  "interface_bindings c nestedInterfaceTypes =
     List.map_filter
       (\<lambda>n. map_option (\<lambda>ty. (TypeIdentifier ty, InterfaceTypePtr n)) (interfaceTypes c n))
       nestedInterfaceTypes"

definition composite_bindings :: "'x Checker \<Rightarrow> nat list \<Rightarrow> (string \<times> Type) list" where
  "composite_bindings c nestedCompositeTypes =
     List.map_filter
       (\<lambda>n. map_option (\<lambda>ty. (CompositeIdentifier ty, CompositeTypePtr n)) (compositeTypes c n))
       nestedCompositeTypes"

definition nested_bindings :: "'x Checker \<Rightarrow> nat list \<Rightarrow> nat list \<Rightarrow> (string \<times> Type) list" where
  "nested_bindings c nestedInterfaceTypes nestedCompositeTypes =
     interface_bindings c nestedInterfaceTypes @ composite_bindings c nestedCompositeTypes"

text \<open>
  Two states whose type objects carry the same identifiers, and the container
  back-reference of one type object.
\<close>

definition same_identifiers :: "'x Checker \<Rightarrow> 'x Checker \<Rightarrow> bool" where
  "same_identifiers c c' =
     ((\<forall>x. map_option TypeIdentifier (interfaceTypes c' x) =
            map_option TypeIdentifier (interfaceTypes c x))
      \<and> (\<forall>x. map_option CompositeIdentifier (compositeTypes c' x) =
            map_option CompositeIdentifier (compositeTypes c x)))"

definition interface_contained :: "nat \<Rightarrow> 'x Checker \<Rightarrow> nat \<Rightarrow> bool" where
  "interface_contained a c n =
     (case interfaceTypes c n of
        None \<Rightarrow> False
      | Some ty \<Rightarrow> ContainerType ty = Some (InterfaceTypePtr a))"

definition composite_contained :: "nat \<Rightarrow> 'x Checker \<Rightarrow> nat \<Rightarrow> bool" where
  "composite_contained a c n =
     (case compositeTypes c n of
        None \<Rightarrow> False
      | Some ty \<Rightarrow> CompositeContainerType ty = Some (InterfaceTypePtr a))"






section \<open>Concrete inputs\<close>

definition empty_checker :: "unit Checker" where
  "empty_checker =
     \<lparr>CheckerLocation = 0, errors = [], containerTypes = Map.empty,
      typeActivations = [Map.empty], valueActivations = [Map.empty],
      InterfaceDeclarationTypes = Map.empty, InterfaceNestedDeclarations = Map.empty,
      memberOrigins = Map.empty, interfaceTypes = Map.empty, nextInterfaceType = 0,
      compositeTypes = Map.empty,
      unmodelled = ()\<rparr>"

definition pos :: "int \<Rightarrow> Position" where
  "pos n = \<lparr>Offset = n, Line = 1, Column = n\<rparr>"

definition demo_visitor :: "(unit, nat) EmptyVisitor" where
  "demo_visitor =
     default_visitor
       \<lparr>BoolValueVisitor := Some (\<lambda>interpreter val s. Returned () (s + 10)),
        ArrayValueVisitor := Some (\<lambda>interpreter val s. Returned False (s + 1))\<rparr>"

definition demo_value :: Value where
  "demo_value =
     ArrayValue [BoolValue True, SomeValue (IntValue 3), DictionaryValue [(''k'', NilValue)]]"

definition quiet_helpers :: "unit Helpers" where
  "quiet_helpers =
     \<lparr>checkDeclarationAccessModifier = (\<lambda>access kind startPos isType allowAuth c. Returned () c),
      checkFieldsAccessModifier = (\<lambda>fs c. Returned () c),
      checkNestedIdentifiers = (\<lambda>fs fns ids cds c. Returned () c),
      rangeOrder = (\<lambda>m. filter (\<lambda>k. m k \<noteq> None) [''A'', ''B'']),
      membersAndOrigins = (\<lambda>t fs fns b c. Returned (Map.empty, Map.empty) c),
      initializerParameterTypeAnnotations = (\<lambda>inits c. Returned [] c),
      checkInitializers = (\<lambda>inits fs t kind name annotations containerKind info c. Returned () c),
      checkDestructors = (\<lambda>ds fs ms t kind name containerKind c. Returned () c),
      checkUnknownSpecialFunctions = (\<lambda>sfs c. Returned () c),
      checkResourceFieldNesting = (\<lambda>fs ms kind c. Returned () c),
      checkCompositeDeclarationSupport = (\<lambda>kind declKind identifier c. Returned () c),
      enterValueScope = (\<lambda>c. Returned () c),
      leaveValueScope = (\<lambda>b c. Returned () c),
      declareSelfValue = (\<lambda>t c. Returned () c),
      visitFunctionDeclaration = (\<lambda>f options c. Returned () c),
      recordVariableDeclarationOccurrence = (\<lambda>name variable c. Returned () c),
      visitNestedDeclarations = (\<lambda>kind declKind cds ids c. Returned (Map.empty, [], []) c)\<rparr>"

definition demo_function :: "string \<Rightarrow> FunctionBlock option \<Rightarrow> FunctionDeclaration" where
  "demo_function name block =
     \<lparr>FunctionAccess = AccessPublic,
      FunctionIdentifier = \<lparr>Identifier = name, Pos = pos 20\<rparr>,
      FunctionSignature = 0,
      FunctionBlock = block\<rparr>"

definition statement_block :: FunctionBlock where
  "statement_block =
     \<lparr>Statements = [Statement (pos 7), Statement (pos 9)], PreConditions = [Condition 0],
      PostConditions = [], StartPos = pos 5\<rparr>"

definition condition_block :: FunctionBlock where
  "condition_block =
     \<lparr>Statements = [], PreConditions = [], PostConditions = [Condition 1], StartPos = pos 15\<rparr>"

definition bare_block :: FunctionBlock where
  "bare_block = \<lparr>Statements = [], PreConditions = [], PostConditions = [], StartPos = pos 25\<rparr>"

definition demo_interface :: InterfaceDeclaration where
  "demo_interface =
     InterfaceDeclaration 7 AccessPublic CompositeKindStructure
       \<lparr>Identifier = ''I'', Pos = pos 1\<rparr>
       \<lparr>Fields = [],
        Functions = [demo_function ''f'' None, demo_function ''g'' (Some condition_block)],
        SpecialFunctions = []\<rparr>
       [] [] (pos 0)"

definition demo_interfaceType :: InterfaceType where
  "demo_interfaceType =
     \<lparr>Location = 0, TypeIdentifier = ''I'', TypeCompositeKind = CompositeKindStructure,
      NestedTypes = Map.empty, TypeMembers = Map.empty,
      InitializerParameterTypeAnnotations = [], ContainerType = None\<rparr>"

definition declared_checker :: "unit Checker" where
  "declared_checker =
     empty_checker
       \<lparr>typeActivations :=
          [[''I'' \<mapsto> \<lparr>VariableIdentifier = ''I'', VariableType = InterfaceTypePtr 0,
                      VariableKind = DeclarationKindStructureInterface,
                      VariableAccess = AccessPublic, VariablePos = pos 1\<rparr>]],
        InterfaceDeclarationTypes := [7 \<mapsto> 0],
        InterfaceNestedDeclarations := [7 \<mapsto> Map.empty],
        interfaceTypes := [0 \<mapsto> demo_interfaceType],
        nextInterfaceType := 1\<rparr>"



definition demo_functions :: "FunctionDeclaration list" where
  "demo_functions =
     [demo_function ''f'' None, demo_function ''g'' (Some condition_block),
      demo_function ''k'' (Some statement_block), demo_function ''e'' (Some bare_block)]"

definition nested_interface :: "nat \<Rightarrow> string \<Rightarrow> InterfaceDeclaration" where
  "nested_interface p name =
     InterfaceDeclaration p AccessPublic CompositeKindStructure
       \<lparr>Identifier = name, Pos = pos (int p)\<rparr>
       \<lparr>Fields = [], Functions = [], SpecialFunctions = []\<rparr>
       [] [] (pos (int p))"

text \<open>
  Modelled from the spec: \<open>visitNestedDeclarations\<close> is not part of the sources. For the
  nested interface declarations the spec says: run phase 1 on each, record the nested
  declaration, and collect the type produced. \<open>declare_nested_interfaces\<close> does this, in
  order, for nested interfaces that have no nested declarations of their own;
  \<open>nesting_helpers\<close> uses it as \<open>visitNestedDeclarations\<close>.
\<close>

fun declare_nested_interfaces ::
  "InterfaceDeclaration list \<Rightarrow> (string \<rightharpoonup> Declaration) \<Rightarrow> nat list \<Rightarrow> unit Checker
    \<Rightarrow> ((string \<rightharpoonup> Declaration) \<times> nat list, unit Checker) Outcome" where
  "declare_nested_interfaces [] nestedDeclarations nestedInterfaceTypes c =
     Returned (nestedDeclarations, nestedInterfaceTypes) c"
| "declare_nested_interfaces (d # ds) nestedDeclarations nestedInterfaceTypes c =
     and_then (declareInterfaceDeclaration quiet_helpers d c)
       (\<lambda>t c1.
          declare_nested_interfaces ds
            (nestedDeclarations(Identifier (DeclIdentifier d) \<mapsto>
               \<lparr>DeclarationIdentifier = Some (DeclIdentifier d),
                DeclarationKind = InterfaceDeclaration_DeclarationKind d,
                DeclarationAccess = DeclAccess d\<rparr>))
            (nestedInterfaceTypes @ [t]) c1)"

definition nesting_helpers :: "unit Helpers" where
  "nesting_helpers =
     quiet_helpers
       \<lparr>visitNestedDeclarations :=
          (\<lambda>kind declKind cds ids c.
             and_then (declare_nested_interfaces ids Map.empty [] c)
               (\<lambda>r c1. Returned (fst r, snd r, []) c1))\<rparr>"

definition outer_interface :: "InterfaceDeclaration list \<Rightarrow> InterfaceDeclaration" where
  "outer_interface nested =
     InterfaceDeclaration 7 AccessPublic CompositeKindStructure
       \<lparr>Identifier = ''I'', Pos = pos 1\<rparr>
       \<lparr>Fields = [], Functions = [], SpecialFunctions = []\<rparr>
       [] nested (pos 0)"

section \<open>Properties\<close>

text \<open>
  C1. For every function block given to \<open>checkInterfaceSpecialFunctionBlock\<close>: with at
  least one statement, exactly one invalid-implementation diagnostic is reported, at the
  start position of the first statement; with no statements and no pre- or
  post-conditions, exactly one is reported, at the block's start position; with no
  statements but some pre- or post-condition, nothing is reported.
\<close>

theorem checkInterfaceSpecialFunctionBlock_diagnostics:
  "(\<forall>first rest. Statements block = first # rest \<longrightarrow>
      checkInterfaceSpecialFunctionBlock block containerKind implementedKind checker =
        Returned () (checker\<lparr>errors := errors checker @
          [InvalidImplementationError (StartPosition first) containerKind implementedKind]\<rparr>))
   \<and> (Statements block = [] \<and> PreConditions block = [] \<and> PostConditions block = [] \<longrightarrow>
      checkInterfaceSpecialFunctionBlock block containerKind implementedKind checker =
        Returned () (checker\<lparr>errors := errors checker @
          [InvalidImplementationError (StartPos block) containerKind implementedKind]\<rparr>))
   \<and> (Statements block = [] \<and> (PreConditions block \<noteq> [] \<or> PostConditions block \<noteq> []) \<longrightarrow>
      checkInterfaceSpecialFunctionBlock block containerKind implementedKind checker =
        Returned () checker)"
  by (auto simp: checkInterfaceSpecialFunctionBlock_def report_def)

theorem checkInterfaceSpecialFunctionBlock_diagnostics_witness:
  "checkInterfaceSpecialFunctionBlock
      \<lparr>Statements = [Statement (pos 7), Statement (pos 9)], PreConditions = [Condition 0],
       PostConditions = [], StartPos = pos 5\<rparr>
      DeclarationKindResourceInterface DeclarationKindFunction empty_checker
     = Returned () (empty_checker\<lparr>errors :=
         [InvalidImplementationError (pos 7) DeclarationKindResourceInterface
            DeclarationKindFunction]\<rparr>)
   \<and> checkInterfaceSpecialFunctionBlock
      \<lparr>Statements = [], PreConditions = [], PostConditions = [], StartPos = pos 5\<rparr>
      DeclarationKindResourceInterface DeclarationKindFunction empty_checker
     = Returned () (empty_checker\<lparr>errors :=
         [InvalidImplementationError (pos 5) DeclarationKindResourceInterface
            DeclarationKindFunction]\<rparr>)
   \<and> checkInterfaceSpecialFunctionBlock
      \<lparr>Statements = [], PreConditions = [], PostConditions = [Condition 1], StartPos = pos 5\<rparr>
      DeclarationKindResourceInterface DeclarationKindFunction empty_checker
     = Returned () empty_checker"
  using checkInterfaceSpecialFunctionBlock_diagnostics
      [of "\<lparr>Statements = [Statement (pos 7), Statement (pos 9)], PreConditions = [Condition 0],
       PostConditions = [], StartPos = pos 5\<rparr>"
        DeclarationKindResourceInterface DeclarationKindFunction empty_checker]
    checkInterfaceSpecialFunctionBlock_diagnostics
      [of "\<lparr>Statements = [], PreConditions = [], PostConditions = [], StartPos = pos 5\<rparr>"
        DeclarationKindResourceInterface DeclarationKindFunction empty_checker]
    checkInterfaceSpecialFunctionBlock_diagnostics
      [of "\<lparr>Statements = [], PreConditions = [], PostConditions = [Condition 1], StartPos = pos 5\<rparr>"
        DeclarationKindResourceInterface DeclarationKindFunction empty_checker]
  by (simp add: empty_checker_def)

subsection \<open>Outcomes, deferred calls and the concrete run\<close>







lemma declared_checker_reached:
  "declareInterfaceDeclaration quiet_helpers demo_interface empty_checker =
     Returned 0 declared_checker"
  by (simp add: declareInterfaceDeclaration_def declareInterfaceDeclaration_nested_def
      typeActivations_DeclareType_def typeActivations_Enter_def typeActivations_Leave_def
      valueActivations_Enter_def valueActivations_Leave_def report_def
      InterfaceDeclaration_DeclarationKind_def
      and_then_def deferred_def Let_def quiet_helpers_def demo_interface_def empty_checker_def
      declared_checker_def demo_interfaceType_def)



subsection \<open>The container-checking flag\<close>







subsection \<open>Destructor checking\<close>







subsection \<open>A nested declaration without identifier\<close>






subsection \<open>Functions without a block\<close>

lemma checkInterfaceSpecialFunctionBlock_errors:
  "\<exists>c'. checkInterfaceSpecialFunctionBlock block k DeclarationKindFunction c = Returned () c'
     \<and> errors c' = errors c @ functionBlock_diagnostics block k"
  by (auto simp: checkInterfaceSpecialFunctionBlock_def report_def functionBlock_diagnostics_def
      split: list.splits)

lemma checkInterfaceFunction_silent:
  assumes "scope_helpers_silent h"
  shows "\<exists>c'. checkInterfaceFunction h f a k r c = Returned () c'
     \<and> errors c' = errors c @ function_diagnostics k f"
proof -
  from assms obtain c1 where 1: "enterValueScope h c = Returned () c1" "errors c1 = errors c"
    unfolding scope_helpers_silent_def by blast
  from assms obtain c2 where 2: "declareSelfValue h a c1 = Returned () c2" "errors c2 = errors c1"
    unfolding scope_helpers_silent_def by blast
  let ?options = "\<lparr>mustExit = False, declareFunction = False, checkResourceLoss = False,
                      allowAuthAccessModifier = r\<rparr>"
  from assms obtain c3 where 3: "visitFunctionDeclaration h f ?options c2 = Returned () c3"
    "errors c3 = errors c2"
    unfolding scope_helpers_silent_def by blast
  obtain c4 where 4: "(case FunctionBlock f of None \<Rightarrow> Returned () c3
      | Some block \<Rightarrow> checkInterfaceSpecialFunctionBlock block k DeclarationKindFunction c3)
      = Returned () c4" "errors c4 = errors c3 @ function_diagnostics k f"
    using checkInterfaceSpecialFunctionBlock_errors [of _ k c3]
    by (cases "FunctionBlock f") (auto simp: function_diagnostics_def)
  from assms obtain c5 where 5: "leaveValueScope h False c4 = Returned () c5"
    "errors c5 = errors c4"
    unfolding scope_helpers_silent_def by blast
  have "checkInterfaceFunction h f a k r c = Returned () c5"
    by (simp add: checkInterfaceFunction_def and_then_def deferred_def 1 2 3 4 5)
  with 1 2 3 4 5 show ?thesis by simp
qed

lemma checkInterfaceFunctions_loop_silent:
  assumes "scope_helpers_silent h"
  shows "\<exists>c'. checkInterfaceFunctions_loop h fs a k r c = Returned () c'
     \<and> errors c' = errors c @ concat (map (function_diagnostics k) fs)"
proof (induction fs arbitrary: c)
  case Nil
  show ?case by simp
next
  case (Cons f fs)
  from checkInterfaceFunction_silent [OF assms, of f a k r c]
  obtain c1 where 1: "checkInterfaceFunction h f a k r c = Returned () c1"
    "errors c1 = errors c @ function_diagnostics k f" by blast
  from Cons [of c1] obtain c2 where 2: "checkInterfaceFunctions_loop h fs a k r c1 = Returned () c2"
    "errors c2 = errors c1 @ concat (map (function_diagnostics k) fs)" by blast
  from 1 2 show ?case by (simp add: and_then_def)
qed

text \<open>
  C10. For a function whose block is absent, \<open>checkInterfaceFunctions\<close> does no more than
  enter the value scope, declare \<open>self\<close>, visit the function declaration and leave the
  scope: the body rule is not applied. Accordingly, when these four calls report
  nothing, the diagnostics that \<open>checkInterfaceFunctions\<close> adds are those of the body rule
  for the functions that have a block, in order; a function without a block adds none.
\<close>

theorem checkInterfaceFunctions_absent_block:
  "(FunctionBlock function = None \<longrightarrow>
      checkInterfaceFunction h function interfaceType declarationKind inResource checker =
        and_then (enterValueScope h checker)
          (\<lambda>u c1. deferred (leaveValueScope h False)
             (and_then (declareSelfValue h interfaceType c1)
                (\<lambda>u c2. visitFunctionDeclaration h function
                   \<lparr>mustExit = False, declareFunction = False, checkResourceLoss = False,
                    allowAuthAccessModifier = inResource\<rparr> c2))))
   \<and> (scope_helpers_silent h \<and> interfaceTypes checker interfaceType = Some ty \<longrightarrow>
      (\<exists>c'. checkInterfaceFunctions h functions interfaceType declarationKind checker =
               Returned () c'
         \<and> errors c' =
             errors checker @ concat (map (function_diagnostics declarationKind) functions)))"
proof (intro conjI impI)
  assume "FunctionBlock function = None"
  then show "checkInterfaceFunction h function interfaceType declarationKind inResource checker =
        and_then (enterValueScope h checker)
          (\<lambda>u c1. deferred (leaveValueScope h False)
             (and_then (declareSelfValue h interfaceType c1)
                (\<lambda>u c2. visitFunctionDeclaration h function
                   \<lparr>mustExit = False, declareFunction = False, checkResourceLoss = False,
                    allowAuthAccessModifier = inResource\<rparr> c2)))"
    by (auto simp: checkInterfaceFunction_def and_then_def split: Outcome.splits
        intro!: arg_cong [where f = "deferred _"] ext)
next
  assume a: "scope_helpers_silent h \<and> interfaceTypes checker interfaceType = Some ty"
  then show "\<exists>c'. checkInterfaceFunctions h functions interfaceType declarationKind checker =
               Returned () c'
         \<and> errors c' =
             errors checker @ concat (map (function_diagnostics declarationKind) functions)"
    using checkInterfaceFunctions_loop_silent [of h "functions" interfaceType declarationKind
        "TypeCompositeKind ty = CompositeKindResource" checker]
    by (simp add: checkInterfaceFunctions_def read_interfaceType_def and_then_def)
qed

theorem checkInterfaceFunctions_absent_block_witness:
  "FunctionBlock (demo_function ''f'' None) = None
   \<and> checkInterfaceFunction quiet_helpers (demo_function ''f'' None) 0
        DeclarationKindStructureInterface False declared_checker = Returned () declared_checker
   \<and> scope_helpers_silent quiet_helpers
   \<and> interfaceTypes declared_checker 0 = Some demo_interfaceType
   \<and> (\<exists>c'. checkInterfaceFunctions quiet_helpers demo_functions 0
               DeclarationKindStructureInterface declared_checker = Returned () c'
          \<and> errors c' =
              [InvalidImplementationError (pos 7) DeclarationKindStructureInterface
                 DeclarationKindFunction,
               InvalidImplementationError (pos 25) DeclarationKindStructureInterface
                 DeclarationKindFunction])"
proof -
  have silent: "scope_helpers_silent quiet_helpers"
    by (simp add: scope_helpers_silent_def quiet_helpers_def)
  have ty: "interfaceTypes declared_checker 0 = Some demo_interfaceType"
    by (simp add: declared_checker_def)
  have none: "FunctionBlock (demo_function ''f'' None) = None"
    by (simp add: demo_function_def)
  note inst = checkInterfaceFunctions_absent_block
      [of "demo_function ''f'' None" quiet_helpers 0 DeclarationKindStructureInterface False
          declared_checker demo_interfaceType demo_functions]
  from inst none have a: "checkInterfaceFunction quiet_helpers (demo_function ''f'' None) 0
        DeclarationKindStructureInterface False declared_checker = Returned () declared_checker"
    by (simp add: quiet_helpers_def and_then_def deferred_def)
  from inst silent ty obtain c' where b:
    "checkInterfaceFunctions quiet_helpers demo_functions 0
       DeclarationKindStructureInterface declared_checker = Returned () c'"
    "errors c' = errors declared_checker @
       concat (map (function_diagnostics DeclarationKindStructureInterface) demo_functions)"
    by blast
  have "errors c' =
      [InvalidImplementationError (pos 7) DeclarationKindStructureInterface
         DeclarationKindFunction,
       InvalidImplementationError (pos 25) DeclarationKindStructureInterface
         DeclarationKindFunction]"
    unfolding b(2)
    by (simp add: declared_checker_def empty_checker_def demo_functions_def
        function_diagnostics_def functionBlock_diagnostics_def demo_function_def
        condition_block_def statement_block_def bare_block_def)
  with a b(1) none silent ty show ?thesis by blast
qed

subsection \<open>Nested types after phase 1\<close>

lemma same_identifiers_refl: "same_identifiers c c"
  by (simp add: same_identifiers_def)

lemma same_identifiers_trans:
  "same_identifiers c c1 \<Longrightarrow> same_identifiers c1 c2 \<Longrightarrow> same_identifiers c c2"
  by (simp add: same_identifiers_def)

lemma interface_bindings_same:
  "same_identifiers c c' \<Longrightarrow> interface_bindings c' ns = interface_bindings c ns"
proof (induction ns)
  case Nil
  show ?case by (simp add: interface_bindings_def map_filter_simps)
next
  case (Cons n ns)
  from Cons.prems have "map_option TypeIdentifier (interfaceTypes c' n) =
      map_option TypeIdentifier (interfaceTypes c n)"
    by (simp add: same_identifiers_def)
  with Cons show ?case
    by (cases "interfaceTypes c n"; cases "interfaceTypes c' n")
       (auto simp: interface_bindings_def map_filter_simps)
qed

lemma composite_bindings_same:
  "same_identifiers c c' \<Longrightarrow> composite_bindings c' ns = composite_bindings c ns"
proof (induction ns)
  case Nil
  show ?case by (simp add: composite_bindings_def map_filter_simps)
next
  case (Cons n ns)
  from Cons.prems have "map_option CompositeIdentifier (compositeTypes c' n) =
      map_option CompositeIdentifier (compositeTypes c n)"
    by (simp add: same_identifiers_def)
  with Cons show ?case
    by (cases "compositeTypes c n"; cases "compositeTypes c' n")
       (auto simp: composite_bindings_def map_filter_simps)
qed

lemma attachNestedInterfaceType_effect:
  assumes "attachNestedInterfaceType a n c = Returned () c'"
  shows "same_identifiers c c'"
    and "compositeTypes c' = compositeTypes c"
    and "interface_contained a c x \<Longrightarrow> interface_contained a c' x"
    and "interface_contained a c' n"
    and "\<exists>aty nty aty'. interfaceTypes c a = Some aty \<and> interfaceTypes c n = Some nty
           \<and> interfaceTypes c' a = Some aty'
           \<and> NestedTypes aty' = (NestedTypes aty)(TypeIdentifier nty \<mapsto> InterfaceTypePtr n)"
  using assms
  by (auto simp: attachNestedInterfaceType_def read_interfaceType_def write_interfaceType_def
      and_then_def same_identifiers_def interface_contained_def
      split: option.splits if_splits)

lemma attachNestedCompositeType_effect:
  assumes "attachNestedCompositeType a n c = Returned () c'"
  shows "same_identifiers c c'"
    and "interface_contained a c x \<Longrightarrow> interface_contained a c' x"
    and "composite_contained a c y \<Longrightarrow> composite_contained a c' y"
    and "composite_contained a c' n"
    and "\<exists>aty nty aty'. interfaceTypes c a = Some aty \<and> compositeTypes c n = Some nty
           \<and> interfaceTypes c' a = Some aty'
           \<and> NestedTypes aty' = (NestedTypes aty)(CompositeIdentifier nty \<mapsto> CompositeTypePtr n)"
  using assms
  by (auto simp: attachNestedCompositeType_def read_compositeType_def write_interfaceType_def
      write_compositeType_def and_then_def same_identifiers_def interface_contained_def
      composite_contained_def
      split: option.splits if_splits)

lemma and_then_Returned:
  assumes "and_then r f = Returned b s'"
  obtains a s where "r = Returned a s" "f a s = Returned b s'"
  using assms by (cases r) (simp_all add: and_then_def)

lemma map_of_rev_Cons:
  "m ++ map_of (rev ((k, v) # bs)) = m(k \<mapsto> v) ++ map_of (rev bs)"
proof -
  have "map_of (rev ((k, v) # bs)) = map_of [(k, v)] ++ map_of (rev bs)"
    by (simp only: rev.simps map_of_append)
  then show ?thesis
    by (simp add: map_add_assoc [symmetric] del: map_add_assoc)
       (simp add: map_add_def fun_eq_iff split: option.splits)
qed

lemma attachNestedInterfaceTypes_effect:
  assumes "attachNestedInterfaceTypes a ns c = Returned () c'"
  shows "same_identifiers c c' \<and> compositeTypes c' = compositeTypes c
     \<and> (\<forall>x. interface_contained a c x \<longrightarrow> interface_contained a c' x)
     \<and> (\<forall>n\<in>set ns. interface_contained a c' n)
     \<and> (ns \<noteq> [] \<longrightarrow> interfaceTypes c a \<noteq> None)
     \<and> (\<forall>aty. interfaceTypes c a = Some aty \<longrightarrow>
          (\<exists>aty'. interfaceTypes c' a = Some aty'
             \<and> NestedTypes aty' = NestedTypes aty ++ map_of (rev (interface_bindings c ns))))"
  using assms
proof (induction ns arbitrary: c)
  case Nil
  then show ?case
    by (simp add: same_identifiers_refl interface_bindings_def map_filter_simps)
next
  case (Cons n ns)
  from Cons.prems obtain u c1 where step: "attachNestedInterfaceType a n c = Returned u c1"
    and rest: "attachNestedInterfaceTypes a ns c1 = Returned () c'"
    by (auto elim: and_then_Returned)
  note s = attachNestedInterfaceType_effect [OF step [simplified]]
  note r = Cons.IH [OF rest]
  from s(5) obtain aty nty aty1 where o: "interfaceTypes c a = Some aty"
    "interfaceTypes c n = Some nty" "interfaceTypes c1 a = Some aty1"
    "NestedTypes aty1 = (NestedTypes aty)(TypeIdentifier nty \<mapsto> InterfaceTypePtr n)"
    by blast
  have b: "interface_bindings c (n # ns) =
      (TypeIdentifier nty, InterfaceTypePtr n) # interface_bindings c1 ns"
    using o(2) interface_bindings_same [OF s(1), of ns]
    by (simp add: interface_bindings_def map_filter_simps)
  from r o(3) obtain aty' where f: "interfaceTypes c' a = Some aty'"
    "NestedTypes aty' = NestedTypes aty1 ++ map_of (rev (interface_bindings c1 ns))"
    by blast
  have nested: "\<forall>aty0. interfaceTypes c a = Some aty0 \<longrightarrow>
          (\<exists>aty'. interfaceTypes c' a = Some aty'
             \<and> NestedTypes aty' = NestedTypes aty0 ++ map_of (rev (interface_bindings c (n # ns))))"
    using o(1,4) f by (simp add: b map_of_rev_Cons)
  have ids: "same_identifiers c c'"
    using s(1) r by (blast intro: same_identifiers_trans)
  have comp: "compositeTypes c' = compositeTypes c"
    using s(2) r by simp
  have pres: "\<forall>x. interface_contained a c x \<longrightarrow> interface_contained a c' x"
    using s(3) r by blast
  have cont: "\<forall>m\<in>set (n # ns). interface_contained a c' m"
    using s(4) r by auto
  from ids comp pres cont nested o(1) show ?case by simp
qed

lemma attachNestedCompositeTypes_effect:
  assumes "attachNestedCompositeTypes a ns c = Returned () c'"
  shows "same_identifiers c c'
     \<and> (\<forall>x. interface_contained a c x \<longrightarrow> interface_contained a c' x)
     \<and> (\<forall>y. composite_contained a c y \<longrightarrow> composite_contained a c' y)
     \<and> (\<forall>n\<in>set ns. composite_contained a c' n)
     \<and> (ns \<noteq> [] \<longrightarrow> interfaceTypes c a \<noteq> None)
     \<and> (\<forall>aty. interfaceTypes c a = Some aty \<longrightarrow>
          (\<exists>aty'. interfaceTypes c' a = Some aty'
             \<and> NestedTypes aty' = NestedTypes aty ++ map_of (rev (composite_bindings c ns))))"
  using assms
proof (induction ns arbitrary: c)
  case Nil
  then show ?case
    by (simp add: same_identifiers_refl composite_bindings_def map_filter_simps)
next
  case (Cons n ns)
  from Cons.prems obtain u c1 where step: "attachNestedCompositeType a n c = Returned u c1"
    and rest: "attachNestedCompositeTypes a ns c1 = Returned () c'"
    by (auto elim: and_then_Returned)
  note s = attachNestedCompositeType_effect [OF step [simplified]]
  note r = Cons.IH [OF rest]
  from s(5) obtain aty nty aty1 where o: "interfaceTypes c a = Some aty"
    "compositeTypes c n = Some nty" "interfaceTypes c1 a = Some aty1"
    "NestedTypes aty1 = (NestedTypes aty)(CompositeIdentifier nty \<mapsto> CompositeTypePtr n)"
    by blast
  have b: "composite_bindings c (n # ns) =
      (CompositeIdentifier nty, CompositeTypePtr n) # composite_bindings c1 ns"
    using o(2) composite_bindings_same [OF s(1), of ns]
    by (simp add: composite_bindings_def map_filter_simps)
  from r o(3) obtain aty' where f: "interfaceTypes c' a = Some aty'"
    "NestedTypes aty' = NestedTypes aty1 ++ map_of (rev (composite_bindings c1 ns))"
    by blast
  have nested: "\<forall>aty0. interfaceTypes c a = Some aty0 \<longrightarrow>
          (\<exists>aty'. interfaceTypes c' a = Some aty'
             \<and> NestedTypes aty' = NestedTypes aty0 ++ map_of (rev (composite_bindings c (n # ns))))"
    using o(1,4) f by (simp add: b map_of_rev_Cons)
  have ids: "same_identifiers c c'"
    using s(1) r by (blast intro: same_identifiers_trans)
  have pres: "\<forall>x. interface_contained a c x \<longrightarrow> interface_contained a c' x"
    using s(2) r by blast
  have cpres: "\<forall>y. composite_contained a c y \<longrightarrow> composite_contained a c' y"
    using s(3) r by blast
  have cont: "\<forall>m\<in>set (n # ns). composite_contained a c' m"
    using s(4) r by auto
  from ids pres cpres cont nested o(1) show ?case by simp
qed

lemma deferred_typeActivations_Leave_Returned:
  assumes "deferred typeActivations_Leave r = Returned b s'"
  obtains s where "r = Returned b s" "interfaceTypes s' = interfaceTypes s"
    "compositeTypes s' = compositeTypes s"
  using assms
  by (cases r)
     (auto simp: deferred_def typeActivations_Leave_def split: list.splits Outcome.splits)

lemma deferred_valueActivations_Leave_Returned:
  assumes "deferred valueActivations_Leave r = Returned b s'"
  obtains s where "r = Returned b s" "interfaceTypes s' = interfaceTypes s"
    "compositeTypes s' = compositeTypes s"
  using assms
  by (cases r)
     (auto simp: deferred_def valueActivations_Leave_def split: list.splits Outcome.splits)

lemma same_identifiers_stores:
  "interfaceTypes c' = interfaceTypes c \<Longrightarrow> compositeTypes c' = compositeTypes c
    \<Longrightarrow> same_identifiers c c'"
  by (simp add: same_identifiers_def)

lemma in_interface_bindings:
  "n \<in> set ns \<Longrightarrow> interfaceTypes c n = Some nty
    \<Longrightarrow> (TypeIdentifier nty, InterfaceTypePtr n) \<in> set (interface_bindings c ns)"
  by (force simp: interface_bindings_def map_filter_def)

lemma in_composite_bindings:
  "n \<in> set ns \<Longrightarrow> compositeTypes c n = Some nty
    \<Longrightarrow> (CompositeIdentifier nty, CompositeTypePtr n) \<in> set (composite_bindings c ns)"
  by (force simp: composite_bindings_def map_filter_def)

lemma attach_both_effect:
  assumes i: "attachNestedInterfaceTypes a nits c = Returned () c1"
    and k: "attachNestedCompositeTypes a ncts c1 = Returned () c2"
  shows "same_identifiers c c2"
    and "\<forall>n\<in>set nits. interface_contained a c2 n"
    and "\<forall>m\<in>set ncts. composite_contained a c2 m"
    and "\<forall>name t. map_of (rev (nested_bindings c nits ncts)) name = Some t \<longrightarrow>
           (\<exists>ty. interfaceTypes c2 a = Some ty \<and> NestedTypes ty name = Some t)"
proof -
  note ei = attachNestedInterfaceTypes_effect [OF i]
  note ek = attachNestedCompositeTypes_effect [OF k]
  show ids: "same_identifiers c c2"
    using ei ek by (blast intro: same_identifiers_trans)
  show "\<forall>n\<in>set nits. interface_contained a c2 n" using ei ek by blast
  show "\<forall>m\<in>set ncts. composite_contained a c2 m" using ek by blast
  show "\<forall>name t. map_of (rev (nested_bindings c nits ncts)) name = Some t \<longrightarrow>
           (\<exists>ty. interfaceTypes c2 a = Some ty \<and> NestedTypes ty name = Some t)"
  proof (intro allI impI)
    fix name t
    assume b: "map_of (rev (nested_bindings c nits ncts)) name = Some t"
    have cb: "composite_bindings c1 ncts = composite_bindings c ncts"
      using ei by (simp add: composite_bindings_same)
    have "nits \<noteq> [] \<or> ncts \<noteq> []"
      using b by (auto simp: nested_bindings_def interface_bindings_def composite_bindings_def
          map_filter_simps)
    moreover have "nits = [] \<Longrightarrow> c1 = c" using i by simp
    ultimately have "interfaceTypes c a \<noteq> None"
      using ei ek by (cases "nits = []") auto
    then obtain aty where aty: "interfaceTypes c a = Some aty" by auto
    with ei obtain aty1 where aty1: "interfaceTypes c1 a = Some aty1"
      "NestedTypes aty1 = NestedTypes aty ++ map_of (rev (interface_bindings c nits))"
      by blast
    with ek obtain aty2 where aty2: "interfaceTypes c2 a = Some aty2"
      "NestedTypes aty2 = NestedTypes aty1 ++ map_of (rev (composite_bindings c1 ncts))"
      by blast
    have "NestedTypes aty2 = NestedTypes aty ++ map_of (rev (nested_bindings c nits ncts))"
      using aty1(2) aty2(2) by (simp add: nested_bindings_def cb)
    with b have "NestedTypes aty2 name = Some t"
      by (simp add: map_add_Some_iff)
    with aty2(1) show "\<exists>ty. interfaceTypes c2 a = Some ty \<and> NestedTypes ty name = Some t"
      by blast
  qed
qed

lemma declareInterfaceDeclaration_Returned:
  assumes "declareInterfaceDeclaration h declaration checker = Returned a c'"
  obtains c3 c4 where
    "declareInterfaceDeclaration_nested h declaration (nextInterfaceType checker) c3
       = Returned () c4"
    "a = nextInterfaceType checker"
    "c' = c4\<lparr>InterfaceDeclarationTypes :=
        (InterfaceDeclarationTypes c4)(DeclPtr declaration \<mapsto> nextInterfaceType checker)\<rparr>"
proof -
  from assms obtain r1 c1 where 1: "and_then (report (snd r1) c1)
      (\<lambda>u c2. and_then
         (recordVariableDeclarationOccurrence h (Identifier (DeclIdentifier declaration)) (fst r1) c2)
         (\<lambda>u c3. and_then
            (declareInterfaceDeclaration_nested h declaration (nextInterfaceType checker) c3)
            (\<lambda>u c4. Returned (nextInterfaceType checker)
               (c4\<lparr>InterfaceDeclarationTypes :=
                  (InterfaceDeclarationTypes c4)
                    (DeclPtr declaration \<mapsto> nextInterfaceType checker)\<rparr>)))) = Returned a c'"
    unfolding declareInterfaceDeclaration_def Let_def by (rule and_then_Returned)
  then obtain u2 c2 where 2: "and_then
         (recordVariableDeclarationOccurrence h (Identifier (DeclIdentifier declaration)) (fst r1) c2)
         (\<lambda>u c3. and_then
            (declareInterfaceDeclaration_nested h declaration (nextInterfaceType checker) c3)
            (\<lambda>u c4. Returned (nextInterfaceType checker)
               (c4\<lparr>InterfaceDeclarationTypes :=
                  (InterfaceDeclarationTypes c4)
                    (DeclPtr declaration \<mapsto> nextInterfaceType checker)\<rparr>))) = Returned a c'"
    by (rule and_then_Returned)
  then obtain u3 c3 where 3: "and_then
            (declareInterfaceDeclaration_nested h declaration (nextInterfaceType checker) c3)
            (\<lambda>u c4. Returned (nextInterfaceType checker)
               (c4\<lparr>InterfaceDeclarationTypes :=
                  (InterfaceDeclarationTypes c4)
                    (DeclPtr declaration \<mapsto> nextInterfaceType checker)\<rparr>)) = Returned a c'"
    by (rule and_then_Returned)
  then obtain u4 c4 where 4:
    "declareInterfaceDeclaration_nested h declaration (nextInterfaceType checker) c3
       = Returned u4 c4"
    "Returned (nextInterfaceType checker)
               (c4\<lparr>InterfaceDeclarationTypes :=
                  (InterfaceDeclarationTypes c4)
                    (DeclPtr declaration \<mapsto> nextInterfaceType checker)\<rparr>) = Returned a c'"
    by (rule and_then_Returned)
  from 4(2) have "a = nextInterfaceType checker"
    "c' = c4\<lparr>InterfaceDeclarationTypes :=
        (InterfaceDeclarationTypes c4)(DeclPtr declaration \<mapsto> nextInterfaceType checker)\<rparr>"
    by auto
  with 4(1) show ?thesis by (auto intro: that)
qed

lemma declareInterfaceDeclaration_nested_Returned:
  assumes "declareInterfaceDeclaration_nested h declaration a c = Returned u c'"
  obtains st r st' ci cs where
    "visitNestedDeclarations h (DeclCompositeKind declaration)
        (InterfaceDeclaration_DeclarationKind declaration)
        (CompositeDeclarations declaration) (InterfaceDeclarations declaration) st
      = Returned r st'"
    "attachNestedInterfaceTypes a (fst (snd r))
        (st'\<lparr>InterfaceNestedDeclarations :=
           (InterfaceNestedDeclarations st')(DeclPtr declaration \<mapsto> fst r)\<rparr>) = Returned () ci"
    "attachNestedCompositeTypes a (snd (snd r)) ci = Returned () cs"
    "interfaceTypes c' = interfaceTypes cs" "compositeTypes c' = compositeTypes cs"
proof -
  let ?attach = "\<lambda>r c3. and_then
      (attachNestedInterfaceTypes a (fst (snd r))
         (c3\<lparr>InterfaceNestedDeclarations :=
            (InterfaceNestedDeclarations c3)(DeclPtr declaration \<mapsto> fst r)\<rparr>))
      (\<lambda>u c4. attachNestedCompositeTypes a (snd (snd r)) c4)"
  let ?visit = "\<lambda>c2. and_then
      (visitNestedDeclarations h (DeclCompositeKind declaration)
         (InterfaceDeclaration_DeclarationKind declaration)
         (CompositeDeclarations declaration) (InterfaceDeclarations declaration) c2) ?attach"
  from assms obtain ue ce where 1: "deferred typeActivations_Leave
      (and_then (valueActivations_Enter ce) (\<lambda>u c2. deferred valueActivations_Leave (?visit c2)))
      = Returned u c'"
    unfolding declareInterfaceDeclaration_nested_def by (rule and_then_Returned)
  then obtain s5 where 2: "and_then (valueActivations_Enter ce)
      (\<lambda>u c2. deferred valueActivations_Leave (?visit c2)) = Returned u s5"
    and st5: "interfaceTypes c' = interfaceTypes s5" "compositeTypes c' = compositeTypes s5"
    by (rule deferred_typeActivations_Leave_Returned)
  from 2 obtain uv cv where 3: "deferred valueActivations_Leave (?visit cv) = Returned u s5"
    by (rule and_then_Returned)
  then obtain s6 where 4: "?visit cv = Returned u s6"
    and st6: "interfaceTypes s5 = interfaceTypes s6" "compositeTypes s5 = compositeTypes s6"
    by (rule deferred_valueActivations_Leave_Returned)
  from 4 obtain r cw where 5: "visitNestedDeclarations h (DeclCompositeKind declaration)
         (InterfaceDeclaration_DeclarationKind declaration)
         (CompositeDeclarations declaration) (InterfaceDeclarations declaration) cv = Returned r cw"
    and 6: "?attach r cw = Returned u s6"
    by (rule and_then_Returned)
  from 6 obtain ui ci where 7: "attachNestedInterfaceTypes a (fst (snd r))
         (cw\<lparr>InterfaceNestedDeclarations :=
            (InterfaceNestedDeclarations cw)(DeclPtr declaration \<mapsto> fst r)\<rparr>) = Returned ui ci"
    and 8: "attachNestedCompositeTypes a (snd (snd r)) ci = Returned u s6"
    by (rule and_then_Returned)
  from 5 7 8 st5 st6 show ?thesis by (auto intro: that)
qed

lemmas phase1_defs =
  declareInterfaceDeclaration_def declareInterfaceDeclaration_nested_def
  attachNestedInterfaceType_def read_interfaceType_def write_interfaceType_def
  typeActivations_DeclareType_def typeActivations_Enter_def typeActivations_Leave_def
  valueActivations_Enter_def valueActivations_Leave_def report_def
  InterfaceDeclaration_DeclarationKind_def and_then_def deferred_def Let_def

text \<open>
  C6, as stated, fails when two nested declarations share an identifier. Phase 1 of an
  interface with two nested interfaces named A produces the types 1 and 2, both with the
  enclosing type 0 as container; the nested-type mapping holds type 2 under A, so type 1
  is not retrievable under its identifier.
\<close>

theorem nested_type_shadowed_by_same_identifier:
  "\<exists>c'. declareInterfaceDeclaration nesting_helpers
          (outer_interface [nested_interface 8 ''A'', nested_interface 9 ''A''])
          empty_checker = Returned 0 c'
     \<and> map_option TypeIdentifier (interfaceTypes c' 1) = Some ''A''
     \<and> map_option ContainerType (interfaceTypes c' 1) = Some (Some (InterfaceTypePtr 0))
     \<and> map_option (\<lambda>ty. NestedTypes ty ''A'') (interfaceTypes c' 0)
          = Some (Some (InterfaceTypePtr 2))
     \<and> map_option (\<lambda>ty. NestedTypes ty ''A'') (interfaceTypes c' 0)
          \<noteq> Some (Some (InterfaceTypePtr 1))"
  by (simp add: phase1_defs nesting_helpers_def quiet_helpers_def outer_interface_def
      nested_interface_def empty_checker_def)

text \<open>
  C6, amended. When phase 1 of an interface declaration returns, for the nested
  interface and composite types that visiting the nested declarations produced: every
  one of them has the enclosing interface type as its container; the nested-type mapping
  of the enclosing type holds, under each identifier, the last nested type produced with
  that identifier (interface types first, composite types second); so when no two nested
  types share an identifier, every nested type is retrievable under its own identifier.
\<close>

theorem nested_types_attached:
  fixes checker :: "'x Checker"
  assumes "declareInterfaceDeclaration h declaration checker = Returned a c'"
  shows "\<exists>nestedDeclarations nestedInterfaceTypes nestedCompositeTypes st st'.
      visitNestedDeclarations h (DeclCompositeKind declaration)
          (InterfaceDeclaration_DeclarationKind declaration)
          (CompositeDeclarations declaration) (InterfaceDeclarations declaration) st
        = Returned (nestedDeclarations, nestedInterfaceTypes, nestedCompositeTypes) st'
      \<and> InterfaceDeclarationTypes c' (DeclPtr declaration) = Some a
      \<and> (\<forall>n\<in>set nestedInterfaceTypes. \<exists>nty. interfaceTypes c' n = Some nty
            \<and> ContainerType nty = Some (InterfaceTypePtr a)
            \<and> (distinct (map fst (nested_bindings c' nestedInterfaceTypes nestedCompositeTypes))
                 \<longrightarrow> (\<exists>ty. interfaceTypes c' a = Some ty
                        \<and> NestedTypes ty (TypeIdentifier nty) = Some (InterfaceTypePtr n))))
      \<and> (\<forall>m\<in>set nestedCompositeTypes. \<exists>mty. compositeTypes c' m = Some mty
            \<and> CompositeContainerType mty = Some (InterfaceTypePtr a)
            \<and> (distinct (map fst (nested_bindings c' nestedInterfaceTypes nestedCompositeTypes))
                 \<longrightarrow> (\<exists>ty. interfaceTypes c' a = Some ty
                        \<and> NestedTypes ty (CompositeIdentifier mty) = Some (CompositeTypePtr m))))
      \<and> (\<forall>name t.
            map_of (rev (nested_bindings c' nestedInterfaceTypes nestedCompositeTypes)) name
              = Some t
            \<longrightarrow> (\<exists>ty. interfaceTypes c' a = Some ty \<and> NestedTypes ty name = Some t))"
proof -
  let ?a = "nextInterfaceType checker"
  from assms obtain c3 c4 where
    nested: "declareInterfaceDeclaration_nested h declaration ?a c3 = Returned () c4"
    and fin: "a = ?a" "c' = c4\<lparr>InterfaceDeclarationTypes :=
        (InterfaceDeclarationTypes c4)(DeclPtr declaration \<mapsto> ?a)\<rparr>"
    by (rule declareInterfaceDeclaration_Returned)
  from nested obtain cv r cw ci s6 where
    visit: "visitNestedDeclarations h (DeclCompositeKind declaration)
        (InterfaceDeclaration_DeclarationKind declaration)
        (CompositeDeclarations declaration) (InterfaceDeclarations declaration) cv = Returned r cw"
    and ai: "attachNestedInterfaceTypes ?a (fst (snd r))
        (cw\<lparr>InterfaceNestedDeclarations :=
           (InterfaceNestedDeclarations cw)(DeclPtr declaration \<mapsto> fst r)\<rparr>) = Returned () ci"
    and ac: "attachNestedCompositeTypes ?a (snd (snd r)) ci = Returned () s6"
    and st: "interfaceTypes c4 = interfaceTypes s6" "compositeTypes c4 = compositeTypes s6"
    by (rule declareInterfaceDeclaration_nested_Returned)
  let ?cw = "cw\<lparr>InterfaceNestedDeclarations :=
              (InterfaceNestedDeclarations cw)(DeclPtr declaration \<mapsto> fst r)\<rparr>"
  let ?nits = "fst (snd r)"
  let ?ncts = "snd (snd r)"
  note e = attach_both_effect [OF ai ac]
  have stores: "interfaceTypes c' = interfaceTypes s6" "compositeTypes c' = compositeTypes s6"
    using fin(2) st by simp_all
  have "same_identifiers s6 c'"
    using stores by (rule same_identifiers_stores)
  with e(1) have ids: "same_identifiers ?cw c'"
    by (rule same_identifiers_trans)
  have bind: "nested_bindings c' ?nits ?ncts = nested_bindings ?cw ?nits ?ncts"
    using ids by (simp add: nested_bindings_def interface_bindings_same composite_bindings_same)
  have last: "\<forall>name t. map_of (rev (nested_bindings c' ?nits ?ncts)) name = Some t \<longrightarrow>
      (\<exists>ty. interfaceTypes c' a = Some ty \<and> NestedTypes ty name = Some t)"
    using e(4) by (simp add: bind stores fin(1))
  have dist: "distinct (map fst (nested_bindings c' ?nits ?ncts)) \<Longrightarrow>
      (name, t) \<in> set (nested_bindings c' ?nits ?ncts) \<Longrightarrow>
      \<exists>ty. interfaceTypes c' a = Some ty \<and> NestedTypes ty name = Some t" for name t
  proof -
    assume d: "distinct (map fst (nested_bindings c' ?nits ?ncts))"
      and m: "(name, t) \<in> set (nested_bindings c' ?nits ?ncts)"
    from d have "distinct (map fst (rev (nested_bindings c' ?nits ?ncts)))"
      by (simp add: rev_map [symmetric])
    moreover from m have "(name, t) \<in> set (rev (nested_bindings c' ?nits ?ncts))" by simp
    ultimately have "map_of (rev (nested_bindings c' ?nits ?ncts)) name = Some t"
      by (rule map_of_is_SomeI)
    with last show ?thesis by blast
  qed
  have ifaces: "\<forall>n\<in>set ?nits. \<exists>nty. interfaceTypes c' n = Some nty
            \<and> ContainerType nty = Some (InterfaceTypePtr a)
            \<and> (distinct (map fst (nested_bindings c' ?nits ?ncts))
                 \<longrightarrow> (\<exists>ty. interfaceTypes c' a = Some ty
                        \<and> NestedTypes ty (TypeIdentifier nty) = Some (InterfaceTypePtr n)))"
  proof
    fix n assume n: "n \<in> set ?nits"
    with e(2) have "interface_contained ?a s6 n" by blast
    then obtain nty where nty: "interfaceTypes c' n = Some nty"
      "ContainerType nty = Some (InterfaceTypePtr a)"
      by (auto simp: interface_contained_def stores fin(1) split: option.splits)
    from n nty(1) have "(TypeIdentifier nty, InterfaceTypePtr n)
        \<in> set (nested_bindings c' ?nits ?ncts)"
      by (simp add: nested_bindings_def in_interface_bindings)
    with dist nty show "\<exists>nty. interfaceTypes c' n = Some nty
            \<and> ContainerType nty = Some (InterfaceTypePtr a)
            \<and> (distinct (map fst (nested_bindings c' ?nits ?ncts))
                 \<longrightarrow> (\<exists>ty. interfaceTypes c' a = Some ty
                        \<and> NestedTypes ty (TypeIdentifier nty) = Some (InterfaceTypePtr n)))"
      by blast
  qed
  have comps: "\<forall>m\<in>set ?ncts. \<exists>mty. compositeTypes c' m = Some mty
            \<and> CompositeContainerType mty = Some (InterfaceTypePtr a)
            \<and> (distinct (map fst (nested_bindings c' ?nits ?ncts))
                 \<longrightarrow> (\<exists>ty. interfaceTypes c' a = Some ty
                        \<and> NestedTypes ty (CompositeIdentifier mty) = Some (CompositeTypePtr m)))"
  proof
    fix m assume m: "m \<in> set ?ncts"
    with e(3) have "composite_contained ?a s6 m" by blast
    then obtain mty where mty: "compositeTypes c' m = Some mty"
      "CompositeContainerType mty = Some (InterfaceTypePtr a)"
      by (auto simp: composite_contained_def stores fin(1) split: option.splits)
    from m mty(1) have "(CompositeIdentifier mty, CompositeTypePtr m)
        \<in> set (nested_bindings c' ?nits ?ncts)"
      by (simp add: nested_bindings_def in_composite_bindings)
    with dist mty show "\<exists>mty. compositeTypes c' m = Some mty
            \<and> CompositeContainerType mty = Some (InterfaceTypePtr a)
            \<and> (distinct (map fst (nested_bindings c' ?nits ?ncts))
                 \<longrightarrow> (\<exists>ty. interfaceTypes c' a = Some ty
                        \<and> NestedTypes ty (CompositeIdentifier mty) = Some (CompositeTypePtr m)))"
      by blast
  qed
  have rec: "InterfaceDeclarationTypes c' (DeclPtr declaration) = Some a"
    using fin by simp
  have v: "visitNestedDeclarations h (DeclCompositeKind declaration)
        (InterfaceDeclaration_DeclarationKind declaration)
        (CompositeDeclarations declaration) (InterfaceDeclarations declaration) cv
      = Returned (fst r, ?nits, ?ncts) cw"
    using visit by simp
  from v rec ifaces comps last show ?thesis by blast
qed

theorem nested_types_attached_witness:
  "\<exists>c'. declareInterfaceDeclaration nesting_helpers
          (outer_interface [nested_interface 8 ''A'', nested_interface 9 ''B''])
          empty_checker = Returned 0 c'
     \<and> map_option (\<lambda>ty. NestedTypes ty ''A'') (interfaceTypes c' 0)
          = Some (Some (InterfaceTypePtr 1))
     \<and> map_option (\<lambda>ty. NestedTypes ty ''B'') (interfaceTypes c' 0)
          = Some (Some (InterfaceTypePtr 2))
     \<and> (\<exists>nestedInterfaceTypes nestedCompositeTypes.
          InterfaceDeclarationTypes c' 7 = Some 0
          \<and> (\<forall>n\<in>set nestedInterfaceTypes. \<exists>nty. interfaceTypes c' n = Some nty
                \<and> ContainerType nty = Some (InterfaceTypePtr 0))
          \<and> (\<forall>name t.
                map_of (rev (nested_bindings c' nestedInterfaceTypes nestedCompositeTypes)) name
                  = Some t
                \<longrightarrow> (\<exists>ty. interfaceTypes c' 0 = Some ty \<and> NestedTypes ty name = Some t)))"
proof -
  let ?d = "outer_interface [nested_interface 8 ''A'', nested_interface 9 ''B'']"
  have "\<exists>c'. declareInterfaceDeclaration nesting_helpers ?d empty_checker = Returned 0 c'
     \<and> map_option (\<lambda>ty. NestedTypes ty ''A'') (interfaceTypes c' 0)
          = Some (Some (InterfaceTypePtr 1))
     \<and> map_option (\<lambda>ty. NestedTypes ty ''B'') (interfaceTypes c' 0)
          = Some (Some (InterfaceTypePtr 2))"
    by (simp add: phase1_defs nesting_helpers_def quiet_helpers_def outer_interface_def
        nested_interface_def empty_checker_def)
  then obtain c' where run: "declareInterfaceDeclaration nesting_helpers ?d empty_checker
        = Returned 0 c'"
    and look: "map_option (\<lambda>ty. NestedTypes ty ''A'') (interfaceTypes c' 0)
          = Some (Some (InterfaceTypePtr 1))"
      "map_option (\<lambda>ty. NestedTypes ty ''B'') (interfaceTypes c' 0)
          = Some (Some (InterfaceTypePtr 2))"
    by blast
  have ptr: "DeclPtr ?d = 7" by (simp add: outer_interface_def)
  from nested_types_attached [OF run]
  obtain nds nits ncts where
    a: "InterfaceDeclarationTypes c' (DeclPtr ?d) = Some 0"
    and b: "\<forall>n\<in>set nits. \<exists>nty. interfaceTypes c' n = Some nty
            \<and> ContainerType nty = Some (InterfaceTypePtr 0)
            \<and> (distinct (map fst (nested_bindings c' nits ncts))
                 \<longrightarrow> (\<exists>ty. interfaceTypes c' 0 = Some ty
                        \<and> NestedTypes ty (TypeIdentifier nty) = Some (InterfaceTypePtr n)))"
    and c: "\<forall>name t. map_of (rev (nested_bindings c' nits ncts)) name = Some t
            \<longrightarrow> (\<exists>ty. interfaceTypes c' 0 = Some ty \<and> NestedTypes ty name = Some t)"
    by (elim exE conjE)
  from b have b': "\<forall>n\<in>set nits. \<exists>nty. interfaceTypes c' n = Some nty
            \<and> ContainerType nty = Some (InterfaceTypePtr 0)"
    by blast
  from a ptr have a': "InterfaceDeclarationTypes c' 7 = Some 0" by simp
  have "\<exists>nestedInterfaceTypes nestedCompositeTypes.
          InterfaceDeclarationTypes c' 7 = Some 0
          \<and> (\<forall>n\<in>set nestedInterfaceTypes. \<exists>nty. interfaceTypes c' n = Some nty
                \<and> ContainerType nty = Some (InterfaceTypePtr 0))
          \<and> (\<forall>name t.
                map_of (rev (nested_bindings c' nestedInterfaceTypes nestedCompositeTypes)) name
                  = Some t
                \<longrightarrow> (\<exists>ty. interfaceTypes c' 0 = Some ty \<and> NestedTypes ty name = Some t))"
    using a' b' c by blast
  with run look show ?thesis by blast
qed

subsection \<open>Two sibling interfaces with one identifier\<close>














subsection \<open>The dispatcher with the all-default visitor\<close>

lemmas default_visit_defs = VisitTypeValue_def VisitVoidValue_def VisitBoolValue_def VisitStringValue_def VisitArrayValue_def VisitIntValue_def VisitInt8Value_def VisitInt16Value_def VisitInt32Value_def VisitInt64Value_def VisitInt128Value_def VisitInt256Value_def VisitUIntValue_def VisitUInt8Value_def VisitUInt16Value_def VisitUInt32Value_def VisitUInt64Value_def VisitUInt128Value_def VisitUInt256Value_def VisitWord8Value_def VisitWord16Value_def VisitWord32Value_def VisitWord64Value_def VisitFix64Value_def VisitUFix64Value_def VisitCompositeValue_def VisitDictionaryValue_def VisitNilValue_def VisitSomeValue_def VisitStorageReferenceValue_def VisitEphemeralReferenceValue_def VisitAddressValue_def VisitAuthAccountValue_def VisitPublicAccountValue_def VisitPathValue_def VisitCapabilityValue_def VisitLinkValue_def VisitInterpretedFunctionValue_def VisitHostFunctionValue_def VisitBoundFunctionValue_def VisitAuthAccountContractsValue_def VisitDeployedContractValue_def

lemma preorder_entries_map_snd:
  "preorder_entries path n es = preorder_each path n (map snd es)"
  by (induction es arbitrary: n) auto

lemma preorder_children: "preorder path v = (path, v) # preorder_each path 0 (children v)"
  by (cases v) (simp_all add: preorder_entries_map_snd)

lemma accept_default_visitor:
  "accept default_visitor interpreter path v s = Returned (preorder path v) s"
  "accept_each default_visitor interpreter path n xs s = Returned (preorder_each path n xs) s"
  "accept_entries default_visitor interpreter path n es s =
     Returned (preorder_entries path n es) s"
proof (induction path v and path n xs and path n es arbitrary: s and s and s
    rule: preorder_preorder_each_preorder_entries.induct)
qed (simp_all add: and_then_def default_visit_defs default_visitor_def)

lemma Value_children_induct:
  assumes step: "\<And>v. (\<And>c. c \<in> set (children v) \<Longrightarrow> P c) \<Longrightarrow> P v"
  shows "P v"
proof (induction v)
  case (ArrayValue xs)
  show ?case by (rule step) (simp add: ArrayValue)
next
  case (DictionaryValue es)
  show ?case by (rule step) (auto intro: DictionaryValue)
next
  case (CompositeValue name es)
  show ?case by (rule step) (auto intro: CompositeValue)
next
  case (SomeValue x)
  show ?case by (rule step) (simp add: SomeValue)
qed (rule step, simp)+

lemma positions_below_Nil: "positions_below path n [] = {}"
  by (simp add: positions_below_def)

lemma positions_below_Cons:
  "positions_below path n (y # ys) =
     {((path @ [n]) @ p, x) | p x. subvalue y p = Some x} \<union> positions_below path (Suc n) ys"
proof (rule set_eqI, rule iffI)
  fix e assume "e \<in> positions_below path n (y # ys)"
  then obtain i p x where e: "e = (path @ (n + i) # p, x)" and i: "i < Suc (length ys)"
    and sv: "subvalue ((y # ys) ! i) p = Some x"
    by (auto simp: positions_below_def)
  show "e \<in> {((path @ [n]) @ p, x) | p x. subvalue y p = Some x} \<union> positions_below path (Suc n) ys"
  proof (cases i)
    case 0
    with e sv show ?thesis by auto
  next
    case (Suc j)
    with e sv i have "e = (path @ (Suc n + j) # p, x)" "j < length ys" "subvalue (ys ! j) p = Some x"
      by auto
    then have "e \<in> positions_below path (Suc n) ys"
      unfolding positions_below_def by blast
    then show ?thesis by simp
  qed
next
  fix e assume "e \<in> {((path @ [n]) @ p, x) | p x. subvalue y p = Some x} \<union> positions_below path (Suc n) ys"
  then consider (hd) p x where "e = ((path @ [n]) @ p, x)" "subvalue y p = Some x"
    | (tl) j p x where "e = (path @ (Suc n + j) # p, x)" "j < length ys" "subvalue (ys ! j) p = Some x"
    by (auto simp: positions_below_def)
  then show "e \<in> positions_below path n (y # ys)"
  proof cases
    case hd
    then have "e = (path @ (n + 0) # p, x)" "0 < length (y # ys)" "subvalue ((y # ys) ! 0) p = Some x"
      by auto
    then show ?thesis unfolding positions_below_def by blast
  next
    case tl
    then have "e = (path @ (n + Suc j) # p, x)" "Suc j < length (y # ys)"
      "subvalue ((y # ys) ! Suc j) p = Some x"
      by auto
    then show ?thesis unfolding positions_below_def by blast
  qed
qed

lemma positions_of_node:
  "{(path @ p, x) | p x. subvalue v p = Some x} =
     insert (path, v) (positions_below path 0 (children v))"
proof (rule set_eqI, rule iffI)
  fix e assume "e \<in> {(path @ p, x) | p x. subvalue v p = Some x}"
  then obtain p x where e: "e = (path @ p, x)" and sv: "subvalue v p = Some x" by auto
  show "e \<in> insert (path, v) (positions_below path 0 (children v))"
  proof (cases p)
    case Nil
    with e sv show ?thesis by simp
  next
    case (Cons i q)
    with sv have "i < length (children v)" "subvalue (children v ! i) q = Some x"
      by (auto split: if_splits)
    with e Cons have "e \<in> positions_below path 0 (children v)"
      unfolding positions_below_def by auto
    then show ?thesis by simp
  qed
next
  fix e assume "e \<in> insert (path, v) (positions_below path 0 (children v))"
  then consider "e = (path, v)"
    | i p x where "e = (path @ i # p, x)" "i < length (children v)"
        "subvalue (children v ! i) p = Some x"
    by (auto simp: positions_below_def)
  then show "e \<in> {(path @ p, x) | p x. subvalue v p = Some x}"
  proof cases
    case 1
    then have "e = (path @ [], v)" "subvalue v [] = Some v" by simp_all
    then show ?thesis by blast
  next
    case 2
    then have "e = (path @ (i # p), x)" "subvalue v (i # p) = Some x" by simp_all
    then show ?thesis by blast
  qed
qed

lemma set_preorder_each:
  assumes "\<And>c path. c \<in> set xs \<Longrightarrow>
     set (preorder path c) = {(path @ p, x) | p x. subvalue c p = Some x}"
  shows "set (preorder_each path n xs) = positions_below path n xs"
  using assms
proof (induction xs arbitrary: n)
  case Nil
  show ?case by (simp add: positions_below_Nil)
next
  case (Cons y ys)
  have "set (preorder_each path (Suc n) ys) = positions_below path (Suc n) ys"
    by (rule Cons.IH) (simp add: Cons.prems)
  moreover have "set (preorder (path @ [n]) y) =
      {((path @ [n]) @ p, x) | p x. subvalue y p = Some x}"
    by (rule Cons.prems) simp
  ultimately show ?case
    by (simp only: preorder_each.simps set_append positions_below_Cons)
qed

lemma set_preorder:
  "set (preorder path v) = {(path @ p, x) | p x. subvalue v p = Some x}"
proof (induction v arbitrary: path rule: Value_children_induct)
  case (1 v)
  have "set (preorder_each path 0 (children v)) = positions_below path 0 (children v)"
    by (rule set_preorder_each) (rule 1)
  then show ?case
    by (simp only: preorder_children positions_of_node list.set)
qed

lemma fst_positions_below:
  "e \<in> positions_below path n xs \<Longrightarrow> \<exists>i p. fst e = path @ (n + i) # p"
  by (auto simp: positions_below_def)

lemma distinct_preorder_each:
  assumes "\<And>c path. c \<in> set xs \<Longrightarrow> distinct (map fst (preorder path c))"
  shows "distinct (map fst (preorder_each path n xs))"
  using assms
proof (induction xs arbitrary: n)
  case Nil
  show ?case by simp
next
  case (Cons y ys)
  have d1: "distinct (map fst (preorder (path @ [n]) y))"
    by (rule Cons.prems) simp
  have d2: "distinct (map fst (preorder_each path (Suc n) ys))"
    by (rule Cons.IH) (simp add: Cons.prems)
  have s2: "set (preorder_each path (Suc n) ys) = positions_below path (Suc n) ys"
    by (rule set_preorder_each) (rule set_preorder)
  have disj: "fst ` set (preorder (path @ [n]) y) \<inter> fst ` set (preorder_each path (Suc n) ys) = {}"
  proof (rule ccontr)
    assume "\<not> ?thesis"
    then obtain e1 e2 where e1: "e1 \<in> set (preorder (path @ [n]) y)"
      and e2: "e2 \<in> set (preorder_each path (Suc n) ys)" and eq: "fst e1 = fst e2"
      by auto
    from e1 obtain p where "fst e1 = (path @ [n]) @ p"
      by (auto simp: set_preorder)
    moreover from e2 s2 obtain i q where "fst e2 = path @ (Suc n + i) # q"
      using fst_positions_below by blast
    ultimately show False using eq by simp
  qed
  show ?case using d1 d2 disj by simp
qed

lemma distinct_preorder: "distinct (map fst (preorder path v))"
proof (induction v arbitrary: path rule: Value_children_induct)
  case (1 v)
  have d: "distinct (map fst (preorder_each path 0 (children v)))"
    by (rule distinct_preorder_each) (rule 1)
  have s: "set (preorder_each path 0 (children v)) = positions_below path 0 (children v)"
    by (rule set_preorder_each) (rule set_preorder)
  have "path \<notin> fst ` set (preorder_each path 0 (children v))"
  proof
    assume "path \<in> fst ` set (preorder_each path 0 (children v))"
    then obtain e where "e \<in> positions_below path 0 (children v)" "fst e = path"
      using s by auto
    then show False using fst_positions_below by fastforce
  qed
  with d show ?case by (simp add: preorder_children)
qed

text \<open>
  C2. For every value \<open>v\<close>, the dispatcher run over \<open>v\<close> with the all-default visitor
  returns normally (no fault), leaves the state as it was, and its \<open>Visit\<close> calls are
  the fixed preorder of \<open>v\<close>: no position is visited twice, and the positions visited
  are exactly the nodes reachable from \<open>v\<close> through container children.
\<close>

theorem default_visitor_traversal:
  "accept default_visitor interpreter [] v s = Returned (preorder [] v) s
   \<and> distinct (map fst (preorder [] v))
   \<and> set (preorder [] v) = {(p, x). subvalue v p = Some x}"
  using set_preorder [of "[]" v]
  by (simp add: accept_default_visitor distinct_preorder)

theorem default_visitor_traversal_witness:
  "accept default_visitor () [] demo_value (0::nat) =
     Returned
       [([], demo_value),
        ([0], BoolValue True),
        ([1], SomeValue (IntValue 3)),
        ([1, 0], IntValue 3),
        ([2], DictionaryValue [(''k'', NilValue)]),
        ([2, 0], NilValue)] 0"
  using default_visitor_traversal [of "()" demo_value "0::nat"]
  by (simp add: demo_value_def)

subsection \<open>The callback slots of the empty visitor\<close>

text \<open>
  C3. For each of the four container variants (array, dictionary, composite record,
  optional-present) an unset callback slot makes the \<open>Visit\<close> method return true; for
  every leaf variant an unset slot makes it return at once, the state unchanged; a set
  slot is called with exactly the interpreter and the value, and its outcome (for a
  container, its answer) is the method's.
\<close>

theorem EmptyVisitor_slots:
  "container_slot_contract ArrayValueVisitor VisitArrayValue v interpreter val s
   \<and> container_slot_contract CompositeValueVisitor VisitCompositeValue v interpreter val s
   \<and> container_slot_contract DictionaryValueVisitor VisitDictionaryValue v interpreter val s
   \<and> container_slot_contract SomeValueVisitor VisitSomeValue v interpreter val s
   \<and> leaf_slot_contract ValueVisitor VisitValue v interpreter val s
   \<and> leaf_slot_contract TypeValueVisitor VisitTypeValue v interpreter val s
   \<and> leaf_slot_contract VoidValueVisitor VisitVoidValue v interpreter val s
   \<and> leaf_slot_contract BoolValueVisitor VisitBoolValue v interpreter val s
   \<and> leaf_slot_contract StringValueVisitor VisitStringValue v interpreter val s
   \<and> leaf_slot_contract IntValueVisitor VisitIntValue v interpreter val s
   \<and> leaf_slot_contract Int8ValueVisitor VisitInt8Value v interpreter val s
   \<and> leaf_slot_contract Int16ValueVisitor VisitInt16Value v interpreter val s
   \<and> leaf_slot_contract Int32ValueVisitor VisitInt32Value v interpreter val s
   \<and> leaf_slot_contract Int64ValueVisitor VisitInt64Value v interpreter val s
   \<and> leaf_slot_contract Int128ValueVisitor VisitInt128Value v interpreter val s
   \<and> leaf_slot_contract Int256ValueVisitor VisitInt256Value v interpreter val s
   \<and> leaf_slot_contract UIntValueVisitor VisitUIntValue v interpreter val s
   \<and> leaf_slot_contract UInt8ValueVisitor VisitUInt8Value v interpreter val s
   \<and> leaf_slot_contract UInt16ValueVisitor VisitUInt16Value v interpreter val s
   \<and> leaf_slot_contract UInt32ValueVisitor VisitUInt32Value v interpreter val s
   \<and> leaf_slot_contract UInt64ValueVisitor VisitUInt64Value v interpreter val s
   \<and> leaf_slot_contract UInt128ValueVisitor VisitUInt128Value v interpreter val s
   \<and> leaf_slot_contract UInt256ValueVisitor VisitUInt256Value v interpreter val s
   \<and> leaf_slot_contract Word8ValueVisitor VisitWord8Value v interpreter val s
   \<and> leaf_slot_contract Word16ValueVisitor VisitWord16Value v interpreter val s
   \<and> leaf_slot_contract Word32ValueVisitor VisitWord32Value v interpreter val s
   \<and> leaf_slot_contract Word64ValueVisitor VisitWord64Value v interpreter val s
   \<and> leaf_slot_contract Fix64ValueVisitor VisitFix64Value v interpreter val s
   \<and> leaf_slot_contract UFix64ValueVisitor VisitUFix64Value v interpreter val s
   \<and> leaf_slot_contract NilValueVisitor VisitNilValue v interpreter val s
   \<and> leaf_slot_contract StorageReferenceValueVisitor VisitStorageReferenceValue v interpreter val s
   \<and> leaf_slot_contract EphemeralReferenceValueVisitor VisitEphemeralReferenceValue v interpreter val s
   \<and> leaf_slot_contract AddressValueVisitor VisitAddressValue v interpreter val s
   \<and> leaf_slot_contract AuthAccountValueVisitor VisitAuthAccountValue v interpreter val s
   \<and> leaf_slot_contract PublicAccountValueVisitor VisitPublicAccountValue v interpreter val s
   \<and> leaf_slot_contract PathValueVisitor VisitPathValue v interpreter val s
   \<and> leaf_slot_contract CapabilityValueVisitor VisitCapabilityValue v interpreter val s
   \<and> leaf_slot_contract LinkValueVisitor VisitLinkValue v interpreter val s
   \<and> leaf_slot_contract InterpretedFunctionValueVisitor VisitInterpretedFunctionValue v interpreter val s
   \<and> leaf_slot_contract HostFunctionValueVisitor VisitHostFunctionValue v interpreter val s
   \<and> leaf_slot_contract BoundFunctionValueVisitor VisitBoundFunctionValue v interpreter val s
   \<and> leaf_slot_contract AuthAccountContractsValueVisitor VisitAuthAccountContractsValue v interpreter val s
   \<and> leaf_slot_contract DeployedContractValueVisitor VisitDeployedContractValue v interpreter val s"
proof -
  have cValue: "leaf_slot_contract ValueVisitor VisitValue v interpreter val s"
    by (simp add: leaf_slot_contract_def VisitValue_def)
  have cTypeValue: "leaf_slot_contract TypeValueVisitor VisitTypeValue v interpreter val s"
    by (simp add: leaf_slot_contract_def VisitTypeValue_def)
  have cVoidValue: "leaf_slot_contract VoidValueVisitor VisitVoidValue v interpreter val s"
    by (simp add: leaf_slot_contract_def VisitVoidValue_def)
  have cBoolValue: "leaf_slot_contract BoolValueVisitor VisitBoolValue v interpreter val s"
    by (simp add: leaf_slot_contract_def VisitBoolValue_def)
  have cStringValue: "leaf_slot_contract StringValueVisitor VisitStringValue v interpreter val s"
    by (simp add: leaf_slot_contract_def VisitStringValue_def)
  have cArrayValue: "container_slot_contract ArrayValueVisitor VisitArrayValue v interpreter val s"
    by (simp add: container_slot_contract_def VisitArrayValue_def)
  have cIntValue: "leaf_slot_contract IntValueVisitor VisitIntValue v interpreter val s"
    by (simp add: leaf_slot_contract_def VisitIntValue_def)
  have cInt8Value: "leaf_slot_contract Int8ValueVisitor VisitInt8Value v interpreter val s"
    by (simp add: leaf_slot_contract_def VisitInt8Value_def)
  have cInt16Value: "leaf_slot_contract Int16ValueVisitor VisitInt16Value v interpreter val s"
    by (simp add: leaf_slot_contract_def VisitInt16Value_def)
  have cInt32Value: "leaf_slot_contract Int32ValueVisitor VisitInt32Value v interpreter val s"
    by (simp add: leaf_slot_contract_def VisitInt32Value_def)
  have cInt64Value: "leaf_slot_contract Int64ValueVisitor VisitInt64Value v interpreter val s"
    by (simp add: leaf_slot_contract_def VisitInt64Value_def)
  have cInt128Value: "leaf_slot_contract Int128ValueVisitor VisitInt128Value v interpreter val s"
    by (simp add: leaf_slot_contract_def VisitInt128Value_def)
  have cInt256Value: "leaf_slot_contract Int256ValueVisitor VisitInt256Value v interpreter val s"
    by (simp add: leaf_slot_contract_def VisitInt256Value_def)
  have cUIntValue: "leaf_slot_contract UIntValueVisitor VisitUIntValue v interpreter val s"
    by (simp add: leaf_slot_contract_def VisitUIntValue_def)
  have cUInt8Value: "leaf_slot_contract UInt8ValueVisitor VisitUInt8Value v interpreter val s"
    by (simp add: leaf_slot_contract_def VisitUInt8Value_def)
  have cUInt16Value: "leaf_slot_contract UInt16ValueVisitor VisitUInt16Value v interpreter val s"
    by (simp add: leaf_slot_contract_def VisitUInt16Value_def)
  have cUInt32Value: "leaf_slot_contract UInt32ValueVisitor VisitUInt32Value v interpreter val s"
    by (simp add: leaf_slot_contract_def VisitUInt32Value_def)
  have cUInt64Value: "leaf_slot_contract UInt64ValueVisitor VisitUInt64Value v interpreter val s"
    by (simp add: leaf_slot_contract_def VisitUInt64Value_def)
  have cUInt128Value: "leaf_slot_contract UInt128ValueVisitor VisitUInt128Value v interpreter val s"
    by (simp add: leaf_slot_contract_def VisitUInt128Value_def)
  have cUInt256Value: "leaf_slot_contract UInt256ValueVisitor VisitUInt256Value v interpreter val s"
    by (simp add: leaf_slot_contract_def VisitUInt256Value_def)
  have cWord8Value: "leaf_slot_contract Word8ValueVisitor VisitWord8Value v interpreter val s"
    by (simp add: leaf_slot_contract_def VisitWord8Value_def)
  have cWord16Value: "leaf_slot_contract Word16ValueVisitor VisitWord16Value v interpreter val s"
    by (simp add: leaf_slot_contract_def VisitWord16Value_def)
  have cWord32Value: "leaf_slot_contract Word32ValueVisitor VisitWord32Value v interpreter val s"
    by (simp add: leaf_slot_contract_def VisitWord32Value_def)
  have cWord64Value: "leaf_slot_contract Word64ValueVisitor VisitWord64Value v interpreter val s"
    by (simp add: leaf_slot_contract_def VisitWord64Value_def)
  have cFix64Value: "leaf_slot_contract Fix64ValueVisitor VisitFix64Value v interpreter val s"
    by (simp add: leaf_slot_contract_def VisitFix64Value_def)
  have cUFix64Value: "leaf_slot_contract UFix64ValueVisitor VisitUFix64Value v interpreter val s"
    by (simp add: leaf_slot_contract_def VisitUFix64Value_def)
  have cCompositeValue: "container_slot_contract CompositeValueVisitor VisitCompositeValue v interpreter val s"
    by (simp add: container_slot_contract_def VisitCompositeValue_def)
  have cDictionaryValue: "container_slot_contract DictionaryValueVisitor VisitDictionaryValue v interpreter val s"
    by (simp add: container_slot_contract_def VisitDictionaryValue_def)
  have cNilValue: "leaf_slot_contract NilValueVisitor VisitNilValue v interpreter val s"
    by (simp add: leaf_slot_contract_def VisitNilValue_def)
  have cSomeValue: "container_slot_contract SomeValueVisitor VisitSomeValue v interpreter val s"
    by (simp add: container_slot_contract_def VisitSomeValue_def)
  have cStorageReferenceValue: "leaf_slot_contract StorageReferenceValueVisitor VisitStorageReferenceValue v interpreter val s"
    by (simp add: leaf_slot_contract_def VisitStorageReferenceValue_def)
  have cEphemeralReferenceValue: "leaf_slot_contract EphemeralReferenceValueVisitor VisitEphemeralReferenceValue v interpreter val s"
    by (simp add: leaf_slot_contract_def VisitEphemeralReferenceValue_def)
  have cAddressValue: "leaf_slot_contract AddressValueVisitor VisitAddressValue v interpreter val s"
    by (simp add: leaf_slot_contract_def VisitAddressValue_def)
  have cAuthAccountValue: "leaf_slot_contract AuthAccountValueVisitor VisitAuthAccountValue v interpreter val s"
    by (simp add: leaf_slot_contract_def VisitAuthAccountValue_def)
  have cPublicAccountValue: "leaf_slot_contract PublicAccountValueVisitor VisitPublicAccountValue v interpreter val s"
    by (simp add: leaf_slot_contract_def VisitPublicAccountValue_def)
  have cPathValue: "leaf_slot_contract PathValueVisitor VisitPathValue v interpreter val s"
    by (simp add: leaf_slot_contract_def VisitPathValue_def)
  have cCapabilityValue: "leaf_slot_contract CapabilityValueVisitor VisitCapabilityValue v interpreter val s"
    by (simp add: leaf_slot_contract_def VisitCapabilityValue_def)
  have cLinkValue: "leaf_slot_contract LinkValueVisitor VisitLinkValue v interpreter val s"
    by (simp add: leaf_slot_contract_def VisitLinkValue_def)
  have cInterpretedFunctionValue: "leaf_slot_contract InterpretedFunctionValueVisitor VisitInterpretedFunctionValue v interpreter val s"
    by (simp add: leaf_slot_contract_def VisitInterpretedFunctionValue_def)
  have cHostFunctionValue: "leaf_slot_contract HostFunctionValueVisitor VisitHostFunctionValue v interpreter val s"
    by (simp add: leaf_slot_contract_def VisitHostFunctionValue_def)
  have cBoundFunctionValue: "leaf_slot_contract BoundFunctionValueVisitor VisitBoundFunctionValue v interpreter val s"
    by (simp add: leaf_slot_contract_def VisitBoundFunctionValue_def)
  have cAuthAccountContractsValue: "leaf_slot_contract AuthAccountContractsValueVisitor VisitAuthAccountContractsValue v interpreter val s"
    by (simp add: leaf_slot_contract_def VisitAuthAccountContractsValue_def)
  have cDeployedContractValue: "leaf_slot_contract DeployedContractValueVisitor VisitDeployedContractValue v interpreter val s"
    by (simp add: leaf_slot_contract_def VisitDeployedContractValue_def)
  show ?thesis
    by (simp only: cValue cTypeValue cVoidValue cBoolValue cStringValue cArrayValue cIntValue cInt8Value cInt16Value cInt32Value cInt64Value cInt128Value cInt256Value cUIntValue cUInt8Value cUInt16Value cUInt32Value cUInt64Value cUInt128Value cUInt256Value cWord8Value cWord16Value cWord32Value cWord64Value cFix64Value cUFix64Value cCompositeValue cDictionaryValue cNilValue cSomeValue cStorageReferenceValue cEphemeralReferenceValue cAddressValue cAuthAccountValue cPublicAccountValue cPathValue cCapabilityValue cLinkValue cInterpretedFunctionValue cHostFunctionValue cBoundFunctionValue cAuthAccountContractsValue cDeployedContractValue simp_thms)
qed

theorem EmptyVisitor_slots_witness:
  "VisitArrayValue demo_visitor () demo_value 5 = Returned False 6
   \<and> VisitDictionaryValue demo_visitor () demo_value 5 = Returned True 5
   \<and> VisitBoolValue demo_visitor () demo_value 5 = Returned () 15
   \<and> VisitNilValue demo_visitor () demo_value 5 = Returned () 5"
proof -
  note slots = EmptyVisitor_slots [of demo_visitor "()" demo_value 5]
  have a: "container_slot_contract ArrayValueVisitor VisitArrayValue
             demo_visitor () demo_value 5"
    and d: "container_slot_contract DictionaryValueVisitor VisitDictionaryValue
             demo_visitor () demo_value 5"
    and b: "leaf_slot_contract BoolValueVisitor VisitBoolValue demo_visitor () demo_value 5"
    and n: "leaf_slot_contract NilValueVisitor VisitNilValue demo_visitor () demo_value 5"
    using slots by simp_all
  from a have 1: "VisitArrayValue demo_visitor () demo_value 5 = Returned False 6"
    unfolding container_slot_contract_def
    by (simp add: demo_visitor_def default_visitor_def)
  from d have 2: "VisitDictionaryValue demo_visitor () demo_value 5 = Returned True 5"
    unfolding container_slot_contract_def
    by (simp add: demo_visitor_def default_visitor_def)
  from b have 3: "VisitBoolValue demo_visitor () demo_value 5 = Returned () 15"
    unfolding leaf_slot_contract_def
    by (simp add: demo_visitor_def default_visitor_def)
  from n have 4: "VisitNilValue demo_visitor () demo_value 5 = Returned () 5"
    unfolding leaf_slot_contract_def
    by (simp add: demo_visitor_def default_visitor_def)
  from 1 2 3 4 show ?thesis by simp
qed

end
